theory Spec2Isabelle
  imports Main
begin

section \<open>Text values and the field splitter\<close>

text \<open>
  Python strings are modelled as \<open>string\<close>, lists of characters, a character being a
  code point below 256; text with code points beyond is outside the model.
  \<open>str.strip()\<close> without argument removes, at both ends, the characters for which
  \<open>str.isspace\<close> holds: below 256 these are the codes 9 to 13 (tab, line feed, vertical
  tab, form feed, carriage return), 28 to 31 (the separators), 32 (space), 133 (next line)
  and 160 (no-break space).
\<close>

definition isspace :: "char \<Rightarrow> bool" where
  "isspace c =
     (let n = (of_char c :: nat)
      in (9 \<le> n \<and> n \<le> 13) \<or> (28 \<le> n \<and> n \<le> 32) \<or> n = 133 \<or> n = 160)"

definition strip :: "string \<Rightarrow> string" where
  "strip s = rev (dropWhile isspace (rev (dropWhile isspace s)))"

text \<open>
  \<open>s.split(",")\<close>: the pieces between the commas, in order. The empty string gives one
  empty piece, and \<open>n\<close> commas give \<open>n + 1\<close> pieces. A character other than the
  comma goes in front of the first piece of the rest (the rest always has a first piece).
\<close>

fun split_comma :: "string \<Rightarrow> string list" where
  "split_comma [] = [[]]"
| "split_comma (c # cs) =
     (if c = CHR '','' then [] # split_comma cs
      else (case split_comma cs of
              [] \<Rightarrow> [[c]]
            | t # ts \<Rightarrow> (c # t) # ts))"

text \<open>
  The value of a worksheet cell as openpyxl hands it over: \<open>None\<close> for an empty cell,
  a text, an integer, or another value that is no text (a float, a boolean, a date), which
  is given with the text that \<open>str()\<close> makes of it.
\<close>

datatype cell_value = NoneV | Str string | Num int | Other string

text \<open>
  The exceptions. \<open>InvalidFileException\<close> is openpyxl's refusal of a file name;
  \<open>LoadError\<close> stands for what opening and reading a file can raise.
\<close>

datatype error =
    ConversionError string
  | Voc4catError string
  | ValueError string
  | AttributeError
  | KeyError string
  | InvalidFileException
  | LoadError string

text \<open>
  \<open>convert.split_and_tidy\<close>:
  \<^verbatim>\<open>return [x.strip() for x in cell_value.strip().split(",")] if cell_value is not None else None\<close>
  The result \<open>None\<close> of the source is \<open>None\<close> of the option type. A value that is
  no text has no method \<open>strip\<close>: the call raises AttributeError.
\<close>

fun split_and_tidy :: "cell_value \<Rightarrow> error + string list option" where
  "split_and_tidy NoneV = Inr None"
| "split_and_tidy (Str s) = Inr (Some (map strip (split_comma (strip s))))"
| "split_and_tidy (Num n) = Inl AttributeError"
| "split_and_tidy (Other v) = Inl AttributeError"

text \<open>
  \<open>utils.split_and_tidy\<close>:
  \<^verbatim>\<open>
  if cell_value == "" or cell_value is None:
      return []
  entries = [x.strip() for x in cell_value.strip().split(",")]
  return [x for x in entries if x]
  \<close>
\<close>

fun utils_split_and_tidy :: "cell_value \<Rightarrow> error + string list" where
  "utils_split_and_tidy NoneV = Inr []"
| "utils_split_and_tidy (Str s) =
     (if s = [] then Inr []
      else Inr (filter (\<lambda>x. x \<noteq> []) (map strip (split_comma (strip s)))))"
| "utils_split_and_tidy (Num n) = Inl AttributeError"
| "utils_split_and_tidy (Other v) = Inl AttributeError"

section \<open>Worksheets and the domain model\<close>

text \<open>
  A worksheet gives the value of the cell at a column letter and a row number
  (\<open>s[f"A{row}"].value\<close>), and has a last row \<open>max_row\<close>; rows count from 1.
  A workbook maps sheet names to worksheets.
\<close>

record worksheet =
  max_row :: nat
  cell :: "char \<Rightarrow> nat \<Rightarrow> cell_value"

type_synonym workbook = "string \<rightharpoonup> worksheet"

text \<open>
  \<open>models.Concept\<close>, \<open>models.Collection\<close> and \<open>models.ConceptScheme\<close> are classes of
  the external domain model. Their constructors are parameters of the embedding: a
  constructor takes the keyword arguments of the call and returns the entity, or the text
  of the ValidationError it raises.
\<close>

record concept_args =
  c_uri :: cell_value
  c_pref_label :: cell_value
  c_alt_labels :: "string list option"
  c_definition :: cell_value
  c_children :: "string list option"
  c_other_ids :: "string list option"
  c_home_vocab_uri :: cell_value
  c_provenance :: cell_value

record collection_args =
  k_uri :: cell_value
  k_pref_label :: cell_value
  k_definition :: cell_value
  k_members :: "string list option"
  k_provenance :: cell_value

record scheme_args =
  s_uri :: cell_value
  s_title :: cell_value
  s_description :: cell_value
  s_created :: cell_value
  s_modified :: cell_value
  s_creator :: cell_value
  s_publisher :: cell_value
  s_version :: cell_value
  s_provenance :: cell_value
  s_custodian :: cell_value
  s_pid :: cell_value

text \<open>Decimal rendering of a row number, as the f-string \<open>{row}\<close> gives it.\<close>

fun str_nat :: "nat \<Rightarrow> string" where
  "str_nat n =
     (if n < 10 then [char_of (48 + n)]
      else str_nat (n div 10) @ [char_of (48 + n mod 10)])"

declare str_nat.simps [simp del]

section \<open>The row extractor\<close>

text \<open>
  The local variables of \<open>extract_concepts_and_collections\<close>: the two result lists and
  the two flags.
\<close>

record ('c, 'k) extract_state =
  concepts :: "'c list"
  collections :: "'k list"
  process_concept :: bool
  process_collection :: bool

definition init_state :: "('c, 'k) extract_state" where
  "init_state =
     \<lparr>concepts = [], collections = [], process_concept = False, process_collection = False\<rparr>"

text \<open>
  The arguments of the two constructor calls. The keyword arguments are evaluated from
  left to right; the only ones that can raise are the calls of \<open>split_and_tidy\<close>, and
  each of them raises AttributeError, which the \<open>except ValidationError\<close> clause does
  not catch.
\<close>

definition concept_row :: "worksheet \<Rightarrow> nat \<Rightarrow> error + concept_args" where
  "concept_row s row =
     (case split_and_tidy (cell s CHR ''C'' row) of
        Inl e \<Rightarrow> Inl e
      | Inr alt \<Rightarrow>
     (case split_and_tidy (cell s CHR ''E'' row) of
        Inl e \<Rightarrow> Inl e
      | Inr chl \<Rightarrow>
     (case split_and_tidy (cell s CHR ''F'' row) of
        Inl e \<Rightarrow> Inl e
      | Inr oth \<Rightarrow>
          Inr \<lparr>c_uri = cell s CHR ''A'' row,
               c_pref_label = cell s CHR ''B'' row,
               c_alt_labels = alt,
               c_definition = cell s CHR ''D'' row,
               c_children = chl,
               c_other_ids = oth,
               c_home_vocab_uri = cell s CHR ''G'' row,
               c_provenance = cell s CHR ''H'' row\<rparr>)))"

definition collection_row :: "worksheet \<Rightarrow> nat \<Rightarrow> error + collection_args" where
  "collection_row s row =
     (case split_and_tidy (cell s CHR ''D'' row) of
        Inl e \<Rightarrow> Inl e
      | Inr mem \<Rightarrow>
          Inr \<lparr>k_uri = cell s CHR ''A'' row,
               k_pref_label = cell s CHR ''B'' row,
               k_definition = cell s CHR ''C'' row,
               k_members = mem,
               k_provenance = cell s CHR ''E'' row\<rparr>)"

definition concept_error :: "nat \<Rightarrow> string \<Rightarrow> error" where
  "concept_error row e =
     ConversionError (''Concept processing error, row '' @ str_nat row @ '', error: '' @ e)"

definition collection_error :: "nat \<Rightarrow> string \<Rightarrow> error" where
  "collection_error row e =
     ConversionError (''Collection processing error, row '' @ str_nat row @ '', error: '' @ e)"

text \<open>
  The body of the inner loop, for the cell of column A in row \<open>row\<close>: the
  \<open>if\<close>/\<open>elif\<close> chain of the source in its order. The last branch
  (\<open>elif cell.value is None: pass\<close>) and the fall-through do nothing.
\<close>

definition process_cell ::
  "(concept_args \<Rightarrow> string + 'c) \<Rightarrow> (collection_args \<Rightarrow> string + 'k) \<Rightarrow> worksheet \<Rightarrow>
   ('c, 'k) extract_state \<Rightarrow> nat \<Rightarrow> error + ('c, 'k) extract_state" where
  "process_cell mk_concept mk_collection s st row =
     (let v = cell s CHR ''A'' row in
      if v = Str ''Concept URI'' then Inr (st\<lparr>process_concept := True\<rparr>)
      else if v = Str ''Collection URI'' then
        Inr (st\<lparr>process_concept := False, process_collection := True\<rparr>)
      else if process_concept st then
        (if v = NoneV then Inr st
         else (case concept_row s row of
                 Inl e \<Rightarrow> Inl e
               | Inr a \<Rightarrow>
                   (case mk_concept a of
                      Inl e \<Rightarrow> Inl (concept_error row e)
                    | Inr c \<Rightarrow> Inr (st\<lparr>concepts := concepts st @ [c]\<rparr>))))
      else if process_collection st then
        (if v = NoneV then Inr st
         else (case collection_row s row of
                 Inl e \<Rightarrow> Inl e
               | Inr a \<Rightarrow>
                   (case mk_collection a of
                      Inl e \<Rightarrow> Inl (collection_error row e)
                    | Inr c \<Rightarrow> Inr (st\<lparr>collections := collections st @ [c]\<rparr>))))
      else Inr st)"

text \<open>The loop over the cells of the column; an exception leaves it at once.\<close>

fun extract_loop ::
  "(concept_args \<Rightarrow> string + 'c) \<Rightarrow> (collection_args \<Rightarrow> string + 'k) \<Rightarrow> worksheet \<Rightarrow>
   ('c, 'k) extract_state \<Rightarrow> nat list \<Rightarrow> error + ('c, 'k) extract_state" where
  "extract_loop mk_concept mk_collection s st [] = Inr st"
| "extract_loop mk_concept mk_collection s st (row # rows) =
     (case process_cell mk_concept mk_collection s st row of
        Inl e \<Rightarrow> Inl e
      | Inr st' \<Rightarrow> extract_loop mk_concept mk_collection s st' rows)"

text \<open>
  \<open>s.iter_cols(max_col=1)\<close> yields one column, column A, with the cells of the rows 1 to
  \<open>max_row\<close>.
\<close>

definition sheet_rows :: "worksheet \<Rightarrow> nat list" where
  "sheet_rows s = [1..<Suc (max_row s)]"

definition extract_concepts_and_collections ::
  "(concept_args \<Rightarrow> string + 'c) \<Rightarrow> (collection_args \<Rightarrow> string + 'k) \<Rightarrow> worksheet \<Rightarrow>
   error + ('c list \<times> 'k list)" where
  "extract_concepts_and_collections mk_concept mk_collection s =
     (case extract_loop mk_concept mk_collection s init_state (sheet_rows s) of
        Inl e \<Rightarrow> Inl e
      | Inr st \<Rightarrow> Inr (concepts st, collections st))"

section \<open>Paths and file names\<close>

text \<open>
  A path is its text, in normal form, with \<open>/\<close> between the components. \<open>Path.name\<close>
  is the last component, \<open>Path.suffix\<close> the part of the name from its last dot (empty
  when the dot is the first or the last character of the name, or missing), and
  \<open>Path.with_suffix\<close> replaces the suffix.
\<close>

definition endswith :: "string \<Rightarrow> string \<Rightarrow> bool" where
  "endswith s suf = (drop (length s - length suf) s = suf)"

definition path_name :: "string \<Rightarrow> string" where
  "path_name p = rev (takeWhile (\<lambda>c. c \<noteq> CHR ''/'') (rev p))"

definition path_suffix :: "string \<Rightarrow> string" where
  "path_suffix p =
     (let name = path_name p;
          ext = rev (takeWhile (\<lambda>c. c \<noteq> CHR ''.'') (rev name))
      in if CHR ''.'' \<in> set name \<and> ext \<noteq> [] \<and> length ext + 1 < length name
         then CHR ''.'' # ext else [])"

definition with_suffix :: "string \<Rightarrow> string \<Rightarrow> string" where
  "with_suffix p suf = take (length p - length (path_suffix p)) p @ suf"

text \<open>
  \<open>s.rfind(c)\<close>: the index of the last occurrence, or \<open>-1\<close>.
\<close>

definition rfind :: "char \<Rightarrow> string \<Rightarrow> int" where
  "rfind c s =
     (if c \<in> set s then int (length s) - 1 - int (length (takeWhile (\<lambda>x. x \<noteq> c) (rev s)))
      else - 1)"

text \<open>
  \<open>os.path.splitext\<close> (POSIX): the path is split at its last dot when that dot lies in
  the last component and some character of the component before it is not a dot (the loop
  of the library returns at the first such character).
\<close>

definition splitext :: "string \<Rightarrow> string \<times> string" where
  "splitext p =
     (let sepIndex = rfind CHR ''/'' p; dotIndex = rfind CHR ''.'' p in
      if dotIndex > sepIndex \<and>
         list_ex (\<lambda>c. c \<noteq> CHR ''.'')
           (take (nat (dotIndex - (sepIndex + 1))) (drop (nat (sepIndex + 1)) p))
      then (take (nat dotIndex) p, drop (nat dotIndex) p)
      else (p, []))"

text \<open>
  \<open>s.lower()\<close>, for code points below 256: the capital letters, A to Z and the
  accented ones (192 to 222, the multiplication sign 215 apart), become small.
\<close>

definition lower_char :: "char \<Rightarrow> char" where
  "lower_char c =
     (let n = (of_char c :: nat)
      in if (65 \<le> n \<and> n \<le> 90) \<or> (192 \<le> n \<and> n \<le> 222 \<and> n \<noteq> 215)
         then char_of (n + 32) else c)"

definition lower :: "string \<Rightarrow> string" where
  "lower s = map lower_char s"

text \<open>\<open>sep.join(xs)\<close>.\<close>

fun join :: "string \<Rightarrow> string list \<Rightarrow> string" where
  "join sep [] = []"
| "join sep [x] = x"
| "join sep (x # y # ys) = x @ sep @ join sep (y # ys)"

section \<open>The conversion orchestrators (convert.py)\<close>

definition RDF_FILE_ENDINGS :: "string list" where
  "RDF_FILE_ENDINGS = [''ttl'', ''rdf'', ''xml'', ''json-ld'', ''json'', ''nt'', ''n3'']"

definition EXCEL_FILE_ENDINGS :: "string list" where
  "EXCEL_FILE_ENDINGS = [''xlsx'']"

text \<open>
  What a conversion does to the outside world, in order: it opens the file of a path and
  reads it, has an RDF file validated against a shape file, or writes a text to a path.
\<close>

datatype io_event =
    OpenFile string
  | ValidateRdf string string
  | WriteFile string string

text \<open>
  openpyxl's \<open>load_workbook(filename)\<close>, as \<open>convert.py\<close> imports it. The library
  first looks at the name: the extension \<open>os.path.splitext(filename)[-1].lower()\<close> must
  be one of its supported formats, or it raises InvalidFileException; only then does it
  open the file and read it. \<open>read\<close> is what opening and reading the file of a path
  gives: the workbook, or the exception raised.
\<close>

definition SUPPORTED_FORMATS :: "string list" where
  "SUPPORTED_FORMATS = [''.xlsx'', ''.xlsm'', ''.xltx'', ''.xltm'']"

definition load_workbook ::
  "(string \<Rightarrow> error + workbook) \<Rightarrow> string \<Rightarrow> io_event list \<times> (error + workbook)" where
  "load_workbook read filename =
     (if lower (snd (splitext filename)) \<notin> set SUPPORTED_FORMATS then
        ([], Inl InvalidFileException)
      else ([OpenFile filename], read filename))"

text \<open>
  The collaborators of \<open>excel_to_rdf\<close>: the constructors of the domain model,
  \<open>Vocabulary.to_graph\<close>, the graph's \<open>serialize\<close>, and the files there are to read
  (\<open>read_workbook\<close>: the workbook in the file of a path, or the exception that opening
  and reading it raises).
\<close>

record ('cs, 'c, 'k) vocabulary =
  concept_scheme :: 'cs
  voc_concepts :: "'c list"
  voc_collections :: "'k list"

record ('cs, 'c, 'k, 'g) collaborators =
  mk_scheme :: "scheme_args \<Rightarrow> string + 'cs"
  mk_concept :: "concept_args \<Rightarrow> string + 'c"
  mk_collection :: "collection_args \<Rightarrow> string + 'k"
  to_graph :: "('cs, 'c, 'k) vocabulary \<Rightarrow> 'g"
  serialize :: "'g \<Rightarrow> string"
  read_workbook :: "string \<Rightarrow> error + workbook"

datatype 'g conversion_result = RetGraph 'g | RetString string | RetDest string

text \<open>The keyword arguments of the \<open>models.ConceptScheme\<close> call: the cells B1 to B11.\<close>

definition scheme_row :: "worksheet \<Rightarrow> scheme_args" where
  "scheme_row sheet =
     \<lparr>s_uri = cell sheet CHR ''B'' 1,
      s_title = cell sheet CHR ''B'' 2,
      s_description = cell sheet CHR ''B'' 3,
      s_created = cell sheet CHR ''B'' 4,
      s_modified = cell sheet CHR ''B'' 5,
      s_creator = cell sheet CHR ''B'' 6,
      s_publisher = cell sheet CHR ''B'' 7,
      s_version = cell sheet CHR ''B'' 8,
      s_provenance = cell sheet CHR ''B'' 9,
      s_custodian = cell sheet CHR ''B'' 10,
      s_pid = cell sheet CHR ''B'' 11\<rparr>"

text \<open>
  \<open>excel_to_rdf\<close>, from a sheet on: the scheme header, the rows, the vocabulary and the
  output in the requested mode. The result is paired with the files written.
\<close>

definition convert_sheet ::
  "('cs, 'c, 'k, 'g) collaborators \<Rightarrow> worksheet \<Rightarrow> string \<Rightarrow> string \<Rightarrow> string option \<Rightarrow>
   io_event list \<times> (error + 'g conversion_result)" where
  "convert_sheet env sheet file_to_convert_path output_type output_file_path =
     (case mk_scheme env (scheme_row sheet) of
        Inl e \<Rightarrow> ([], Inl (ConversionError (''ConceptScheme processing error: '' @ e)))
      | Inr cs \<Rightarrow>
     (case extract_concepts_and_collections (mk_concept env) (mk_collection env) sheet of
        Inl e \<Rightarrow> ([], Inl e)
      | Inr (cons, cols) \<Rightarrow>
          (let v = \<lparr>concept_scheme = cs, voc_concepts = cons, voc_collections = cols\<rparr> in
           if output_type = ''graph'' then ([], Inr (RetGraph (to_graph env v)))
           else if output_type = ''string'' then
             ([], Inr (RetString (serialize env (to_graph env v))))
           else
             (let dest = (case output_file_path of
                            Some d \<Rightarrow> d
                          | None \<Rightarrow> with_suffix file_to_convert_path ''.ttl'')
              in ([WriteFile dest (serialize env (to_graph env v))], Inr (RetDest dest))))))"

text \<open>
  \<open>excel_to_rdf\<close>: the check of the file name, the loading of the workbook and the choice
  of the sheet (\<open>wb[name]\<close> raises KeyError for a sheet the workbook does not have).
\<close>

definition excel_to_rdf ::
  "('cs, 'c, 'k, 'g) collaborators \<Rightarrow> string \<Rightarrow> string option \<Rightarrow> string \<Rightarrow> string option \<Rightarrow>
   io_event list \<times> (error + 'g conversion_result)" where
  "excel_to_rdf env file_to_convert_path sheet_name output_type output_file_path =
     (if \<not> list_ex (endswith (path_name file_to_convert_path)) EXCEL_FILE_ENDINGS then
        ([], Inl (ValueError ''Files for conversion to RDF must be Excel files ending .xlsx''))
      else
        (case load_workbook (read_workbook env) file_to_convert_path of
           (loaded, Inl e) \<Rightarrow> (loaded, Inl e)
         | (loaded, Inr wb) \<Rightarrow>
             (let name = (case sheet_name of None \<Rightarrow> ''vocabulary'' | Some n \<Rightarrow> n) in
              case wb name of
                None \<Rightarrow> (loaded, Inl (KeyError name))
              | Some sheet \<Rightarrow>
                  (let (evs, r) = convert_sheet env sheet file_to_convert_path
                                    output_type output_file_path
                   in (loaded @ evs, r)))))"

text \<open>
  \<open>rdf_to_excel\<close>. \<open>PROFILES\<close> are the keys of \<open>profiles.PROFILES\<close>, a table of the
  external profile registry; \<open>validate\<close> is \<open>pyshacl.validate\<close>, which takes the data
  file and the shape file and returns whether the data conforms and the text of its report
  (\<open>r[0]\<close> and \<open>r[2]\<close>). The shape file is the file \<open>validator.vocpub.ttl\<close> of the
  module's directory. After the validation the function ends: it returns \<open>None\<close>.
\<close>

definition rdf_to_excel ::
  "string list \<Rightarrow> (string \<Rightarrow> string \<Rightarrow> bool \<times> string) \<Rightarrow> string \<Rightarrow> string \<Rightarrow> string option \<Rightarrow>
   io_event list \<times> (error + string option)" where
  "rdf_to_excel PROFILES validate file_to_convert_path profile output_file_path =
     (if \<not> list_ex (endswith (path_name file_to_convert_path)) RDF_FILE_ENDINGS then
        ([], Inl (ValueError
          (''Files for conversion to Excel must end with one of the RDF file formats: ''
           @ [CHR 0x27] @ join ([CHR 0x27] @ '', '' @ [CHR 0x27]) RDF_FILE_ENDINGS @ [CHR 0x27])))
      else if profile \<notin> set PROFILES then
        ([], Inl (ValueError
          (''The profile chosen for conversion must be one of ''
           @ [CHR 0x27] @ join ([CHR 0x27] @ '', '' @ [CHR 0x27]) PROFILES @ [CHR 0x27]
           @ ''. '' @ [CHR 0x27] @ ''vocpub'' @ [CHR 0x27] @ '' is default'')))
      else
        (let r = validate file_to_convert_path ''validator.vocpub.ttl'' in
         if \<not> fst r then
           ([ValidateRdf file_to_convert_path ''validator.vocpub.ttl''],
            Inl (ConversionError
              (''The file you supplied is not valid according to the '' @ profile
               @ '' profile. The validation errors are:'' @ [CHR 0x0A, CHR 0x0A] @ snd r)))
         else ([ValidateRdf file_to_convert_path ''validator.vocpub.ttl''], Inr None)))"

section \<open>The template version gate and the file scan (utils.py)\<close>

definition utils_EXCEL_FILE_ENDINGS :: "string list" where
  "utils_EXCEL_FILE_ENDINGS = [''.xlsx'']"

definition utils_RDF_FILE_ENDINGS :: "(string \<times> string) list" where
  "utils_RDF_FILE_ENDINGS =
     [(''.ttl'', ''ttl''), (''.rdf'', ''xml''), (''.xml'', ''xml''), (''.json-ld'', ''json-ld''),
      (''.json'', ''json-ld''), (''.nt'', ''nt''), (''.n3'', ''n3'')]"

definition utils_KNOWN_FILE_ENDINGS :: "string list" where
  "utils_KNOWN_FILE_ENDINGS = map fst utils_RDF_FILE_ENDINGS @ utils_EXCEL_FILE_ENDINGS"

definition KNOWN_TEMPLATE_VERSIONS :: "string list" where
  "KNOWN_TEMPLATE_VERSIONS = [''0.4.3'']"

text \<open>
  \<open>get_template_version\<close>: the value of cell J11 of the sheet "Introduction";
  \<open>wb["Introduction"]\<close> raises KeyError when the workbook has no such sheet, and the
  function turns it into a Voc4catError (and logs it).
\<close>

definition get_template_version :: "workbook \<Rightarrow> error + cell_value" where
  "get_template_version wb =
     (case wb ''Introduction'' of
        None \<Rightarrow> Inl (Voc4catError ''The version of the Excel template cannot be determined.'')
      | Some intro_sheet \<Rightarrow> Inr (cell intro_sheet CHR ''J'' 11))"

text \<open>\<open>str(v)\<close> of a cell value, as the f-string of the error message formats it.\<close>

definition str_cell :: "cell_value \<Rightarrow> string" where
  "str_cell v =
     (case v of
        NoneV \<Rightarrow> ''None''
      | Str s \<Rightarrow> s
      | Num n \<Rightarrow> (if n < 0 then CHR ''-'' # str_nat (nat (- n)) else str_nat (nat n))
      | Other v \<Rightarrow> v)"

text \<open>
  What a function of \<open>utils.py\<close> returns, where the claims tell the values apart: the
  booleans, a workbook, a list of names.
\<close>

datatype py_value = PyTrue | PyFalse | PyWorkbook workbook | PyList "string list"

text \<open>
  \<open>is_supported_template\<close>. A text is in the list of the known versions when it equals
  one of them; \<open>None\<close> and a value that is no text equal no text.
\<close>

definition is_supported_template :: "workbook \<Rightarrow> error + py_value" where
  "is_supported_template wb =
     (case get_template_version wb of
        Inl e \<Rightarrow> Inl e
      | Inr template_version \<Rightarrow>
          if template_version \<notin> set (map Str KNOWN_TEMPLATE_VERSIONS) then
            Inl (Voc4catError
              (''Unsupported template version. Supported are ''
               @ join '', '' KNOWN_TEMPLATE_VERSIONS @ '', you supplied ''
               @ str_cell template_version @ ''.''))
          else Inr PyTrue)"

text \<open>
  The comprehension \<^verbatim>\<open>[x for x in file_names if x in seen or seen.add(x)]\<close>:
  \<open>seen.add(x)\<close> returns \<open>None\<close>, so a name is kept exactly when it is in \<open>seen\<close>
  already, and is put into \<open>seen\<close> otherwise.
\<close>

fun seen_before :: "string set \<Rightarrow> string list \<Rightarrow> string list" where
  "seen_before seen [] = []"
| "seen_before seen (x # xs) =
     (if x \<in> seen then x # seen_before seen xs else seen_before (insert x seen) xs)"

text \<open>
  \<open>has_file_in_multiple_formats\<close>, on the list of paths that
  \<open>glob.glob(os.path.join(dir_, "*.*"))\<close> returns for the directory, in the order of the
  scan. \<open>os.path.normcase\<close> is the identity (POSIX).
\<close>

definition has_file_in_multiple_formats :: "string list \<Rightarrow> py_value" where
  "has_file_in_multiple_formats globbed =
     (let files = filter (\<lambda>f. list_ex (endswith f) utils_KNOWN_FILE_ENDINGS) globbed;
          file_names = map (\<lambda>f. fst (splitext f)) files;
          unique_file_names = set file_names
      in if length file_names = card unique_file_names then PyFalse
         else PyList (seen_before {} file_names))"

section \<open>Example worksheets\<close>

text \<open>A worksheet from the table of its filled cells; every other cell is empty.\<close>

definition sheet_of :: "nat \<Rightarrow> ((char \<times> nat) \<times> cell_value) list \<Rightarrow> worksheet" where
  "sheet_of n tbl =
     \<lparr>max_row = n,
      cell = (\<lambda>c r. case map_of tbl (c, r) of None \<Rightarrow> NoneV | Some v \<Rightarrow> v)\<rparr>"

text \<open>
  A small vocabulary sheet in the layout of the template: the header block in the rows 1
  to 11 (two of its cells filled), below it the concepts section with a blank row in it,
  and the collections section.
\<close>

definition example_sheet :: worksheet where
  "example_sheet = sheet_of 18
     [((CHR ''A'', 1), Str ''Vocabulary URI''), ((CHR ''B'', 1), Str ''http://ex/voc''),
      ((CHR ''A'', 2), Str ''Title''), ((CHR ''B'', 2), Str ''Example''),
      ((CHR ''A'', 13), Str ''Concept URI''),
      ((CHR ''A'', 14), Str ''http://ex/a''), ((CHR ''B'', 14), Str ''A''),
      ((CHR ''C'', 14), Str '' a, b ,c''), ((CHR ''D'', 14), Str ''first''),
      ((CHR ''E'', 14), Str ''http://ex/b''),
      ((CHR ''A'', 16), Str ''http://ex/b''), ((CHR ''B'', 16), Str ''B''),
      ((CHR ''D'', 16), Str ''second''),
      ((CHR ''A'', 17), Str ''Collection URI''),
      ((CHR ''A'', 18), Str ''http://ex/col''), ((CHR ''B'', 18), Str ''Col''),
      ((CHR ''C'', 18), Str ''all''), ((CHR ''D'', 18), Str ''http://ex/a, http://ex/b'')]"

text \<open>What the extraction of \<open>example_sheet\<close> gives when every row is accepted.\<close>

definition example_concepts :: "concept_args list" where
  "example_concepts =
     [\<lparr>c_uri = Str ''http://ex/a'', c_pref_label = Str ''A'',
       c_alt_labels = Some [''a'', ''b'', ''c''], c_definition = Str ''first'',
       c_children = Some [''http://ex/b''], c_other_ids = None,
       c_home_vocab_uri = NoneV, c_provenance = NoneV\<rparr>,
      \<lparr>c_uri = Str ''http://ex/b'', c_pref_label = Str ''B'',
       c_alt_labels = None, c_definition = Str ''second'',
       c_children = None, c_other_ids = None,
       c_home_vocab_uri = NoneV, c_provenance = NoneV\<rparr>]"

definition example_collections :: "collection_args list" where
  "example_collections =
     [\<lparr>k_uri = Str ''http://ex/col'', k_pref_label = Str ''Col'',
       k_definition = Str ''all'', k_members = Some [''http://ex/a'', ''http://ex/b''],
       k_provenance = NoneV\<rparr>]"

text \<open>A sheet in which a second "Concept URI" cell follows the "Collection URI" cell.\<close>

definition reopened_sheet :: worksheet where
  "reopened_sheet = sheet_of 6
     [((CHR ''A'', 1), Str ''Concept URI''),
      ((CHR ''A'', 2), Str ''Collection URI''),
      ((CHR ''A'', 3), Str ''Concept URI''),
      ((CHR ''A'', 4), Str ''http://ex/c''), ((CHR ''B'', 4), Str ''C''),
      ((CHR ''A'', 5), Str ''Collection URI''),
      ((CHR ''A'', 6), Str ''http://ex/col''), ((CHR ''B'', 6), Str ''Col'')]"

text \<open>
  A constructor that accepts every row, and one that rejects a row without preferred
  label, as a required field does.
\<close>

definition accept_all :: "'a \<Rightarrow> string + 'a" where
  "accept_all a = Inr a"

definition concept_needs_label :: "concept_args \<Rightarrow> string + concept_args" where
  "concept_needs_label a =
     (if c_pref_label a = NoneV then Inl ''pref_label: none is not an allowed value''
      else Inr a)"

definition collection_needs_label :: "collection_args \<Rightarrow> string + collection_args" where
  "collection_needs_label a =
     (if k_pref_label a = NoneV then Inl ''pref_label: none is not an allowed value''
      else Inr a)"

text \<open>
  A sheet with rows that lack the preferred label: rows 3 and 4 in the concepts section,
  row 6 in the collections section. Its header cells B1 to B11 are empty.
\<close>

definition bad_sheet :: worksheet where
  "bad_sheet = sheet_of 6
     [((CHR ''A'', 1), Str ''Concept URI''),
      ((CHR ''A'', 2), Str ''http://ex/a''), ((CHR ''B'', 2), Str ''A''),
      ((CHR ''A'', 3), Str ''http://ex/b''),
      ((CHR ''A'', 4), Str ''http://ex/c''),
      ((CHR ''A'', 5), Str ''Collection URI''),
      ((CHR ''A'', 6), Str ''http://ex/col'')]"

definition scheme_needs_uri :: "scheme_args \<Rightarrow> string + scheme_args" where
  "scheme_needs_uri a =
     (if s_uri a = NoneV then Inl ''uri: none is not an allowed value'' else Inr a)"

text \<open>
  Collaborators for the examples: the graph of a vocabulary is the vocabulary itself, its
  serialisation a fixed text, and the only file there is to read is \<open>voc.xlsx\<close>, a
  workbook with the one sheet "vocabulary".
\<close>

definition example_env ::
  "(scheme_args \<Rightarrow> string + scheme_args) \<Rightarrow> (concept_args \<Rightarrow> string + concept_args) \<Rightarrow>
   (collection_args \<Rightarrow> string + collection_args) \<Rightarrow> worksheet \<Rightarrow>
   (scheme_args, concept_args, collection_args,
    (scheme_args, concept_args, collection_args) vocabulary) collaborators" where
  "example_env mks mkc mkk sheet =
     \<lparr>mk_scheme = mks, mk_concept = mkc, mk_collection = mkk,
      to_graph = (\<lambda>v. v), serialize = (\<lambda>g. ''@prefix skos: ...''),
      read_workbook = (\<lambda>p. if p = ''voc.xlsx'' then Inr (map_of [(''vocabulary'', sheet)])
                            else Inl (LoadError ''No such file''))\<rparr>"

text \<open>Workbooks with and without the sheet "Introduction" and its version cell J11.\<close>

definition versioned_workbook :: "cell_value \<Rightarrow> workbook" where
  "versioned_workbook v =
     map_of [(''Introduction'', sheet_of 11 [((CHR ''J'', 11), v)]),
             (''vocabulary'', example_sheet)]"

definition unversioned_workbook :: workbook where
  "unversioned_workbook = map_of [(''vocabulary'', example_sheet)]"

text \<open>
  A validator for which the data conforms to the shapes of the file
  \<open>validator.vocpub.ttl\<close> and to no other shape file.
\<close>

definition vocpub_only_validator :: "string \<Rightarrow> string \<Rightarrow> bool \<times> string" where
  "vocpub_only_validator file shape =
     (if shape = ''validator.vocpub.ttl'' then (True, ''Conforms: True'')
      else (False, ''Conforms: False''))"

definition failing_validator :: "string \<Rightarrow> string \<Rightarrow> bool \<times> string" where
  "failing_validator file shape = (False, ''Conforms: False'')"

text \<open>The paths of two directories, as the scan returns them.\<close>

definition mixed_dir :: "string list" where
  "mixed_dir = [''voc/a.ttl'', ''voc/b.xlsx'', ''voc/a.xlsx'', ''voc/notes.md'', ''voc/a.rdf'']"

definition plain_dir :: "string list" where
  "plain_dir = [''voc/a.ttl'', ''voc/b.xlsx'', ''voc/notes.md'']"

section \<open>Properties of the field splitter\<close>

lemma split_comma_not_Nil: "split_comma s \<noteq> []"
  by (induction s) (auto split: list.splits)

text \<open>Splitting loses nothing: joining the pieces with commas gives the text back.\<close>

lemma join_split_comma: "join '','' (split_comma s) = s"
proof (induction s)
  case Nil
  show ?case by simp
next
  case (Cons c cs)
  show ?case
  proof (cases "c = CHR '',''")
    case True
    with Cons show ?thesis
      by (cases "split_comma cs") (auto simp: split_comma_not_Nil)
  next
    case False
    obtain t ts where ts: "split_comma cs = t # ts"
      using split_comma_not_Nil by (cases "split_comma cs") auto
    with Cons False show ?thesis by (cases ts) auto
  qed
qed

lemma split_comma_no_comma: "t \<in> set (split_comma s) \<Longrightarrow> CHR '','' \<notin> set t"
  by (induction s arbitrary: t) (auto split: if_splits list.splits)

lemma strip_last: "strip s \<noteq> [] \<Longrightarrow> \<not> isspace (last (strip s))"
  unfolding strip_def by (simp add: last_rev hd_dropWhile)

lemma strip_hd: "strip s \<noteq> [] \<Longrightarrow> \<not> isspace (hd (strip s))"
proof -
  assume ne: "strip s \<noteq> []"
  define t where "t = dropWhile isspace s"
  have split: "t = strip s @ rev (takeWhile isspace (rev t))"
    unfolding strip_def t_def
    by (metis rev_append rev_rev_ident takeWhile_dropWhile_id)
  from ne split have "hd t = hd (strip s)" and "t \<noteq> []"
    by (metis hd_append2, metis append_is_Nil_conv)
  then show ?thesis
    unfolding t_def by (metis hd_dropWhile)
qed

text \<open>
  The variant of \<open>utils.py\<close> returns the trimmed pieces that are not empty, in order,
  for every text (the empty text included).
\<close>

lemma utils_split_and_tidy_Str:
  "utils_split_and_tidy (Str s) =
     Inr (filter (\<lambda>x. x \<noteq> []) (map strip (split_comma (strip s))))"
  by (simp add: strip_def)

lemma utils_split_and_tidy_tokens:
  assumes "utils_split_and_tidy v = Inr ts" and "t \<in> set ts"
  shows "t \<noteq> [] \<and> \<not> isspace (hd t) \<and> \<not> isspace (last t)"
proof (cases v)
  case NoneV
  with assms show ?thesis by simp
next
  case (Str s)
  with assms obtain u where "t = strip u" and "t \<noteq> []"
    by (auto simp: utils_split_and_tidy_Str simp del: utils_split_and_tidy.simps)
  then show ?thesis using strip_hd strip_last by blast
next
  case (Num n)
  with assms show ?thesis by simp
next
  case (Other w)
  with assms show ?thesis by simp
qed

text \<open>
  Claim C4. The field splitter, in both variants, returns for a text its comma-separated
  tokens in order, trimmed and without the empty ones. The variant of \<open>convert.py\<close>
  does not: it trims the pieces and keeps the empty ones, so two commas in a row, a comma at
  the end and the empty text each leave an empty token in its result, where the variant
  of \<open>utils.py\<close> drops it.
\<close>

theorem split_and_tidy_keeps_empty_tokens:
  "split_and_tidy (Str ''a,,b'') = Inr (Some [''a'', [], ''b''])
   \<and> split_and_tidy (Str ''a, b,'') = Inr (Some [''a'', ''b'', []])
   \<and> split_and_tidy (Str []) = Inr (Some [[]])
   \<and> utils_split_and_tidy (Str ''a,,b'') = Inr [''a'', ''b'']
   \<and> utils_split_and_tidy (Str ''a, b,'') = Inr [''a'', ''b'']
   \<and> utils_split_and_tidy (Str []) = Inr []"
  by (simp add: strip_def isspace_def)

section \<open>Properties of the row extractor\<close>

lemma extract_loop_append:
  "extract_loop mkc mkk s st (xs @ ys) =
     (case extract_loop mkc mkk s st xs of
        Inl e \<Rightarrow> Inl e
      | Inr st' \<Rightarrow> extract_loop mkc mkk s st' ys)"
  by (induction xs arbitrary: st) (auto split: sum.splits)

lemma process_cell_empty:
  "cell s CHR ''A'' row = NoneV \<Longrightarrow> process_cell mkc mkk s st row = Inr st"
  by (simp add: process_cell_def)

text \<open>
  Claim C5. A row whose cell in column A is empty is skipped, in whatever section it
  lies: the state after the row is the state before it (nothing is added, no exception is
  raised, the flags of the section stay), and the loop goes on with the rows after it, so
  that the run over the rows is the run over the rows without this one.
\<close>

theorem empty_first_cell_row_skipped:
  assumes "cell s CHR ''A'' row = NoneV"
  shows "process_cell mkc mkk s st row = Inr st
         \<and> extract_loop mkc mkk s st0 (before @ row # after)
             = extract_loop mkc mkk s st0 (before @ after)"
  using assms by (simp add: extract_loop_append process_cell_empty split: sum.splits)

theorem empty_first_cell_row_skipped_witness:
  "cell example_sheet CHR ''A'' 15 = NoneV
   \<and> process_cell accept_all accept_all example_sheet
        (init_state\<lparr>process_concept := True\<rparr>) 15 = Inr (init_state\<lparr>process_concept := True\<rparr>)
   \<and> extract_loop accept_all accept_all example_sheet init_state ([13, 14] @ 15 # [16, 17, 18])
       = extract_loop accept_all accept_all example_sheet init_state ([13, 14] @ [16, 17, 18])"
proof -
  have e: "cell example_sheet CHR ''A'' 15 = NoneV"
    by (simp add: example_sheet_def sheet_of_def)
  from e empty_first_cell_row_skipped [OF e] show ?thesis by blast
qed











lemma process_cell_no_concept:
  assumes "\<not> process_concept st" and "cell s CHR ''A'' row \<noteq> Str ''Concept URI''"
    and "process_cell mkc mkk s st row = Inr st'"
  shows "concepts st' = concepts st \<and> \<not> process_concept st'"
  using assms by (auto simp: process_cell_def Let_def split: if_splits sum.splits)

lemma no_concept_added:
  assumes "\<not> process_concept st"
    and "list_all (\<lambda>r. cell s CHR ''A'' r \<noteq> Str ''Concept URI'') rows"
    and "extract_loop mkc mkk s st rows = Inr st'"
  shows "concepts st' = concepts st \<and> \<not> process_concept st'"
  using assms
proof (induction rows arbitrary: st)
  case Nil
  then show ?case by simp
next
  case (Cons r rows)
  from Cons.prems(3) obtain st1 where step: "process_cell mkc mkk s st r = Inr st1"
    and rest: "extract_loop mkc mkk s st1 rows = Inr st'"
    by (auto split: sum.splits)
  from Cons.prems(1,2) step have "concepts st1 = concepts st" and "\<not> process_concept st1"
    using process_cell_no_concept [of st s r mkc mkk st1] by simp_all
  with Cons.IH [of st1] Cons.prems(2) rest show ?case by simp
qed

lemma sheet_rows_split1:
  assumes "1 \<le> hk" and "hk \<le> max_row s"
  shows "sheet_rows s = [1..<hk] @ hk # [Suc hk..<Suc (max_row s)]"
proof -
  from assms have "[1..<Suc (max_row s)] = [1..<hk] @ [hk..<Suc (max_row s)]"
    by (metis le_Suc_eq upt_add_eq_append le_add_diff_inverse)
  also from assms have "[hk..<Suc (max_row s)] = hk # [Suc hk..<Suc (max_row s)]"
    by (simp add: upt_conv_Cons)
  finally show ?thesis by (simp add: sheet_rows_def)
qed

text \<open>
  Claim C2, as amended. The loop enters the collections section (the state in which
  \<open>process_concept\<close> is off and \<open>process_collection\<close> is on) only at a cell of column A
  whose text is "Collection URI". Such a row is never parsed as a data row: it switches the
  flags and adds no entity. When no "Concept URI" cell follows the "Collection URI" cell of
  row \<open>hk\<close>, no row after \<open>hk\<close> adds a concept: the concepts returned are those
  collected before row \<open>hk\<close>. A filled row in the collections section is not ignored,
  whatever its layout: it is parsed as a collection, from the columns A to E.
\<close>

theorem collections_section_transition:
  "(process_cell mkc mkk s st row = Inr st'
      \<and> (\<not> process_concept st' \<and> process_collection st')
      \<and> \<not> (\<not> process_concept st \<and> process_collection st)
     \<longrightarrow> cell s CHR ''A'' row = Str ''Collection URI'')
   \<and> (cell s CHR ''A'' row = Str ''Collection URI''
     \<longrightarrow> process_cell mkc mkk s st row
           = Inr (st\<lparr>process_concept := False, process_collection := True\<rparr>))
   \<and> (cell s CHR ''A'' hk = Str ''Collection URI'' \<and> 1 \<le> hk \<and> hk \<le> max_row s
      \<and> list_all (\<lambda>r. cell s CHR ''A'' r \<noteq> Str ''Concept URI'') [Suc hk..<Suc (max_row s)]
      \<and> extract_concepts_and_collections mkc mkk s = Inr (cs, ks)
     \<longrightarrow> (\<exists>st0. extract_loop mkc mkk s init_state [1..<hk] = Inr st0 \<and> cs = concepts st0))
   \<and> (\<not> process_concept st \<and> process_collection st
      \<and> cell s CHR ''A'' row \<noteq> NoneV
      \<and> cell s CHR ''A'' row \<noteq> Str ''Concept URI''
      \<and> cell s CHR ''A'' row \<noteq> Str ''Collection URI''
      \<and> collection_row s row = Inr b \<and> mkk b = Inr k
     \<longrightarrow> process_cell mkc mkk s st row = Inr (st\<lparr>collections := collections st @ [k]\<rparr>))"
proof (intro conjI impI)
  assume "\<not> process_concept st \<and> process_collection st
      \<and> cell s CHR ''A'' row \<noteq> NoneV
      \<and> cell s CHR ''A'' row \<noteq> Str ''Concept URI''
      \<and> cell s CHR ''A'' row \<noteq> Str ''Collection URI''
      \<and> collection_row s row = Inr b \<and> mkk b = Inr k"
  then show "process_cell mkc mkk s st row = Inr (st\<lparr>collections := collections st @ [k]\<rparr>)"
    by (simp add: process_cell_def)
next
  assume "process_cell mkc mkk s st row = Inr st'
      \<and> (\<not> process_concept st' \<and> process_collection st')
      \<and> \<not> (\<not> process_concept st \<and> process_collection st)"
  then show "cell s CHR ''A'' row = Str ''Collection URI''"
    by (auto simp: process_cell_def Let_def split: if_splits sum.splits)
next
  assume "cell s CHR ''A'' row = Str ''Collection URI''"
  then show "process_cell mkc mkk s st row
           = Inr (st\<lparr>process_concept := False, process_collection := True\<rparr>)"
    by (simp add: process_cell_def)
next
  assume h: "cell s CHR ''A'' hk = Str ''Collection URI'' \<and> 1 \<le> hk \<and> hk \<le> max_row s
      \<and> list_all (\<lambda>r. cell s CHR ''A'' r \<noteq> Str ''Concept URI'') [Suc hk..<Suc (max_row s)]
      \<and> extract_concepts_and_collections mkc mkk s = Inr (cs, ks)"
  then have rows: "sheet_rows s = [1..<hk] @ hk # [Suc hk..<Suc (max_row s)]"
    by (intro sheet_rows_split1) blast+
  from h obtain stf where fin: "extract_loop mkc mkk s init_state (sheet_rows s) = Inr stf"
    and cs: "cs = concepts stf"
    by (auto simp: extract_concepts_and_collections_def split: sum.splits)
  from fin obtain st0 where pre: "extract_loop mkc mkk s init_state [1..<hk] = Inr st0"
    and post: "extract_loop mkc mkk s st0 (hk # [Suc hk..<Suc (max_row s)]) = Inr stf"
    unfolding rows extract_loop_append by (auto split: sum.splits)
  let ?st1 = "st0\<lparr>process_concept := False, process_collection := True\<rparr>"
  from h have "process_cell mkc mkk s st0 hk = Inr ?st1"
    by (simp add: process_cell_def)
  with post have "extract_loop mkc mkk s ?st1 [Suc hk..<Suc (max_row s)] = Inr stf"
    by simp
  moreover have "\<not> process_concept ?st1" by simp
  ultimately have "concepts stf = concepts ?st1"
    using h no_concept_added [of ?st1 s "[Suc hk..<Suc (max_row s)]" mkc mkk stf] by blast
  with cs pre show "\<exists>st0. extract_loop mkc mkk s init_state [1..<hk] = Inr st0 \<and> cs = concepts st0"
    by simp
qed


theorem collections_section_transition_witness:
  "(process_cell accept_all accept_all example_sheet (init_state\<lparr>process_concept := True\<rparr>) 17
      = Inr (init_state\<lparr>process_concept := False, process_collection := True\<rparr>
             :: (concept_args, collection_args) extract_state)
    \<and> cell example_sheet CHR ''A'' 17 = Str ''Collection URI'')
   \<and> (1 \<le> (17::nat) \<and> 17 \<le> max_row example_sheet
      \<and> list_all (\<lambda>r. cell example_sheet CHR ''A'' r \<noteq> Str ''Concept URI'')
           [Suc 17..<Suc (max_row example_sheet)]
      \<and> extract_concepts_and_collections accept_all accept_all example_sheet
           = Inr (example_concepts, example_collections))
   \<and> (\<exists>st0. extract_loop accept_all accept_all example_sheet init_state [1..<17] = Inr st0
             \<and> example_concepts = concepts (st0 :: (concept_args, collection_args) extract_state))
   \<and> process_cell accept_all accept_all example_sheet
        (init_state\<lparr>process_concept := False, process_collection := True\<rparr>) 18
      = Inr (init_state\<lparr>process_concept := False, process_collection := True,
                        collections := example_collections\<rparr>
             :: (concept_args, collection_args) extract_state)"
proof -
  let ?st = "init_state\<lparr>process_concept := True\<rparr> :: (concept_args, collection_args) extract_state"
  let ?st' = "init_state\<lparr>process_concept := False, process_collection := True\<rparr>
                :: (concept_args, collection_args) extract_state"
  have a: "process_cell accept_all accept_all example_sheet ?st 17 = Inr ?st'"
    by code_simp
  have b: "\<not> process_concept ?st' \<and> process_collection ?st'"
    and c: "\<not> (\<not> process_concept ?st \<and> process_collection ?st)"
    by (simp_all add: init_state_def)
  have d: "cell example_sheet CHR ''A'' 17 = Str ''Collection URI''" by code_simp
  have e: "1 \<le> (17::nat)" and f: "17 \<le> max_row example_sheet" by code_simp+
  have g: "list_all (\<lambda>r. cell example_sheet CHR ''A'' r \<noteq> Str ''Concept URI'')
             [Suc 17..<Suc (max_row example_sheet)]"
    by code_simp
  have h: "extract_concepts_and_collections accept_all accept_all example_sheet
             = Inr (example_concepts, example_collections)"
    by code_simp
  have i: "cell example_sheet CHR ''A'' 18 \<noteq> NoneV
      \<and> cell example_sheet CHR ''A'' 18 \<noteq> Str ''Concept URI''
      \<and> cell example_sheet CHR ''A'' 18 \<noteq> Str ''Collection URI''
      \<and> collection_row example_sheet 18 = Inr (hd example_collections)
      \<and> accept_all (hd example_collections) = Inr (hd example_collections)"
    by code_simp
  have j: "collections ?st' @ [hd example_collections] = example_collections"
    by (simp add: init_state_def example_collections_def)
  from a b c d e f g h
    collections_section_transition [where mkc = accept_all and mkk = accept_all
      and s = example_sheet and st = ?st and st' = ?st' and row = 17 and hk = 17
      and cs = example_concepts and ks = example_collections]
  have first: "\<exists>st0. extract_loop accept_all accept_all example_sheet init_state [1..<17] = Inr st0
             \<and> example_concepts = concepts (st0 :: (concept_args, collection_args) extract_state)"
    by blast
  from b i
    collections_section_transition [where mkc = accept_all and mkk = accept_all
      and s = example_sheet and st = ?st' and row = 18
      and b = "hd example_collections" and k = "hd example_collections"]
  have "process_cell accept_all accept_all example_sheet ?st' 18
          = Inr (?st'\<lparr>collections := collections ?st' @ [hd example_collections]\<rparr>)"
    by blast
  then have second: "process_cell accept_all accept_all example_sheet ?st' 18
          = Inr (?st'\<lparr>collections := example_collections\<rparr>)"
    unfolding j .
  from a d e f g h first second show ?thesis by simp
qed

text \<open>
  Claim C2, as stated, fails on a sheet with a second "Concept URI" cell after the
  "Collection URI" cell: the second cell switches \<open>process_concept\<close> on again, the row
  after it is parsed as a concept and returned, and the next "Collection URI" cell enters
  the collections section a second time.
\<close>

theorem collections_section_transition_counterexample:
  "extract_loop accept_all accept_all reopened_sheet init_state [1, 2]
     = Inr \<lparr>concepts = [], collections = [],
            process_concept = False, process_collection = True\<rparr>
   \<and> extract_loop accept_all accept_all reopened_sheet init_state [1, 2, 3]
     = Inr \<lparr>concepts = [], collections = [],
            process_concept = True, process_collection = True\<rparr>
   \<and> extract_concepts_and_collections accept_all accept_all reopened_sheet
     = Inr ([\<lparr>c_uri = Str ''http://ex/c'', c_pref_label = Str ''C'', c_alt_labels = None,
              c_definition = NoneV, c_children = None, c_other_ids = None,
              c_home_vocab_uri = NoneV, c_provenance = NoneV\<rparr>],
            [\<lparr>k_uri = Str ''http://ex/col'', k_pref_label = Str ''Col'',
              k_definition = NoneV, k_members = None, k_provenance = NoneV\<rparr>])"
  by code_simp

section \<open>Errors of validation\<close>

lemma extract_fails_at_row:
  assumes "1 \<le> row" and "row \<le> max_row s"
    and "extract_loop mkc mkk s init_state [1..<row] = Inr st"
    and "process_cell mkc mkk s st row = Inl e"
  shows "extract_concepts_and_collections mkc mkk s = Inl e"
proof -
  from assms(1,2) have "sheet_rows s = [1..<row] @ row # [Suc row..<Suc (max_row s)]"
    by (rule sheet_rows_split1)
  then have "extract_loop mkc mkk s init_state (sheet_rows s) = Inl e"
    by (simp only: extract_loop_append extract_loop.simps assms(3,4) sum.case)
  then show ?thesis
    by (simp add: extract_concepts_and_collections_def)
qed

lemma excel_to_rdf_loaded:
  assumes "list_ex (endswith (path_name p)) EXCEL_FILE_ENDINGS"
    and "load_workbook (read_workbook env) p = (loaded, Inr wb)"
    and "wb (case sheet_name of None \<Rightarrow> ''vocabulary'' | Some n \<Rightarrow> n) = Some sheet"
  shows "excel_to_rdf env p sheet_name output_type output_file_path
           = (loaded @ fst (convert_sheet env sheet p output_type output_file_path),
              snd (convert_sheet env sheet p output_type output_file_path))"
  using assms by (simp add: excel_to_rdf_def split: prod.splits)

lemma convert_sheet_scheme_error:
  assumes "mk_scheme env (scheme_row sheet) = Inl e"
  shows "convert_sheet env sheet p output_type output_file_path
           = ([], Inl (ConversionError (''ConceptScheme processing error: '' @ e)))"
  using assms by (simp add: convert_sheet_def)

lemma convert_sheet_row_error:
  assumes "\<not> isl (mk_scheme env (scheme_row sheet))"
    and "extract_concepts_and_collections (mk_concept env) (mk_collection env) sheet = Inl e"
  shows "convert_sheet env sheet p output_type output_file_path = ([], Inl e)"
  using assms by (cases "mk_scheme env (scheme_row sheet)") (simp_all add: convert_sheet_def)

text \<open>
  Claim C3. When the construction of a domain entity fails validation, the conversion
  raises a ConversionError that wraps the text of the validation error, and returns
  nothing else: for the scheme header the message is "ConceptScheme processing error: "
  and the text; for a row it names the section ("Concept" or "Collection") and the number
  of the row, and the row is the first one that fails, the rows before it having been
  processed without error. Nothing is written (the events are those of the loading,
  \<open>loaded\<close>), and no list of entities is returned.
\<close>

theorem validation_failure_aborts_conversion:
  assumes "list_ex (endswith (path_name p)) EXCEL_FILE_ENDINGS"
    and "load_workbook (read_workbook env) p = (loaded, Inr wb)"
    and "wb (case sheet_name of None \<Rightarrow> ''vocabulary'' | Some n \<Rightarrow> n) = Some sheet"
  shows
    "(mk_scheme env (scheme_row sheet) = Inl e \<longrightarrow>
        excel_to_rdf env p sheet_name output_type output_file_path
          = (loaded,
             Inl (ConversionError (''ConceptScheme processing error: '' @ e))))
     \<and> (1 \<le> row \<and> row \<le> max_row sheet
        \<and> extract_loop (mk_concept env) (mk_collection env) sheet init_state [1..<row] = Inr st
        \<and> cell sheet CHR ''A'' row \<noteq> NoneV
        \<and> cell sheet CHR ''A'' row \<noteq> Str ''Concept URI''
        \<and> cell sheet CHR ''A'' row \<noteq> Str ''Collection URI''
        \<and> process_concept st
        \<and> concept_row sheet row = Inr a \<and> mk_concept env a = Inl e \<longrightarrow>
          extract_concepts_and_collections (mk_concept env) (mk_collection env) sheet
            = Inl (ConversionError
                     (''Concept processing error, row '' @ str_nat row @ '', error: '' @ e))
          \<and> (\<not> isl (mk_scheme env (scheme_row sheet)) \<longrightarrow>
               excel_to_rdf env p sheet_name output_type output_file_path
                 = (loaded,
                    Inl (ConversionError
                      (''Concept processing error, row '' @ str_nat row @ '', error: '' @ e)))))
     \<and> (1 \<le> row \<and> row \<le> max_row sheet
        \<and> extract_loop (mk_concept env) (mk_collection env) sheet init_state [1..<row] = Inr st
        \<and> cell sheet CHR ''A'' row \<noteq> NoneV
        \<and> cell sheet CHR ''A'' row \<noteq> Str ''Concept URI''
        \<and> cell sheet CHR ''A'' row \<noteq> Str ''Collection URI''
        \<and> \<not> process_concept st \<and> process_collection st
        \<and> collection_row sheet row = Inr b \<and> mk_collection env b = Inl e \<longrightarrow>
          extract_concepts_and_collections (mk_concept env) (mk_collection env) sheet
            = Inl (ConversionError
                     (''Collection processing error, row '' @ str_nat row @ '', error: '' @ e))
          \<and> (\<not> isl (mk_scheme env (scheme_row sheet)) \<longrightarrow>
               excel_to_rdf env p sheet_name output_type output_file_path
                 = (loaded,
                    Inl (ConversionError
                      (''Collection processing error, row '' @ str_nat row @ '', error: '' @ e)))))"
proof (intro conjI impI)
  assume "mk_scheme env (scheme_row sheet) = Inl e"
  then show "excel_to_rdf env p sheet_name output_type output_file_path
          = (loaded,
             Inl (ConversionError (''ConceptScheme processing error: '' @ e)))"
    by (simp add: excel_to_rdf_loaded [OF assms] convert_sheet_scheme_error)
next
  assume h: "1 \<le> row \<and> row \<le> max_row sheet
        \<and> extract_loop (mk_concept env) (mk_collection env) sheet init_state [1..<row] = Inr st
        \<and> cell sheet CHR ''A'' row \<noteq> NoneV
        \<and> cell sheet CHR ''A'' row \<noteq> Str ''Concept URI''
        \<and> cell sheet CHR ''A'' row \<noteq> Str ''Collection URI''
        \<and> process_concept st
        \<and> concept_row sheet row = Inr a \<and> mk_concept env a = Inl e"
  then have "process_cell (mk_concept env) (mk_collection env) sheet st row
               = Inl (concept_error row e)"
    by (simp add: process_cell_def)
  with h have x: "extract_concepts_and_collections (mk_concept env) (mk_collection env) sheet
            = Inl (concept_error row e)"
    using extract_fails_at_row by blast
  then show "extract_concepts_and_collections (mk_concept env) (mk_collection env) sheet
            = Inl (ConversionError
                     (''Concept processing error, row '' @ str_nat row @ '', error: '' @ e))"
    by (simp add: concept_error_def)
  assume "\<not> isl (mk_scheme env (scheme_row sheet))"
  with x show "excel_to_rdf env p sheet_name output_type output_file_path
                 = (loaded,
                    Inl (ConversionError
                      (''Concept processing error, row '' @ str_nat row @ '', error: '' @ e)))"
    by (simp add: excel_to_rdf_loaded [OF assms] convert_sheet_row_error concept_error_def)
next
  assume h: "1 \<le> row \<and> row \<le> max_row sheet
        \<and> extract_loop (mk_concept env) (mk_collection env) sheet init_state [1..<row] = Inr st
        \<and> cell sheet CHR ''A'' row \<noteq> NoneV
        \<and> cell sheet CHR ''A'' row \<noteq> Str ''Concept URI''
        \<and> cell sheet CHR ''A'' row \<noteq> Str ''Collection URI''
        \<and> \<not> process_concept st \<and> process_collection st
        \<and> collection_row sheet row = Inr b \<and> mk_collection env b = Inl e"
  then have "process_cell (mk_concept env) (mk_collection env) sheet st row
               = Inl (collection_error row e)"
    by (simp add: process_cell_def)
  with h have x: "extract_concepts_and_collections (mk_concept env) (mk_collection env) sheet
            = Inl (collection_error row e)"
    using extract_fails_at_row by blast
  then show "extract_concepts_and_collections (mk_concept env) (mk_collection env) sheet
            = Inl (ConversionError
                     (''Collection processing error, row '' @ str_nat row @ '', error: '' @ e))"
    by (simp add: collection_error_def)
  assume "\<not> isl (mk_scheme env (scheme_row sheet))"
  with x show "excel_to_rdf env p sheet_name output_type output_file_path
                 = (loaded,
                    Inl (ConversionError
                      (''Collection processing error, row '' @ str_nat row @ '', error: '' @ e)))"
    by (simp add: excel_to_rdf_loaded [OF assms] convert_sheet_row_error collection_error_def)
qed


theorem validation_failure_aborts_conversion_witness:
  "mk_scheme (example_env scheme_needs_uri accept_all accept_all bad_sheet) (scheme_row bad_sheet)
     = Inl ''uri: none is not an allowed value''
   \<and> excel_to_rdf (example_env scheme_needs_uri accept_all accept_all bad_sheet)
        ''voc.xlsx'' None ''file'' None
     = ([OpenFile ''voc.xlsx''],
        Inl (ConversionError
          ''ConceptScheme processing error: uri: none is not an allowed value''))
   \<and> concept_needs_label
        \<lparr>c_uri = Str ''http://ex/b'', c_pref_label = NoneV, c_alt_labels = None,
         c_definition = NoneV, c_children = None, c_other_ids = None,
         c_home_vocab_uri = NoneV, c_provenance = NoneV\<rparr>
     = Inl ''pref_label: none is not an allowed value''
   \<and> excel_to_rdf (example_env accept_all concept_needs_label accept_all bad_sheet)
        ''voc.xlsx'' None ''file'' None
     = ([OpenFile ''voc.xlsx''],
        Inl (ConversionError
          ''Concept processing error, row 3, error: pref_label: none is not an allowed value''))
   \<and> collection_needs_label
        \<lparr>k_uri = Str ''http://ex/col'', k_pref_label = NoneV, k_definition = NoneV,
         k_members = None, k_provenance = NoneV\<rparr>
     = Inl ''pref_label: none is not an allowed value''
   \<and> excel_to_rdf (example_env accept_all accept_all collection_needs_label bad_sheet)
        ''voc.xlsx'' None ''file'' None
     = ([OpenFile ''voc.xlsx''],
        Inl (ConversionError
          ''Collection processing error, row 6, error: pref_label: none is not an allowed value''))"
proof -
  let ?wb = "map_of [(''vocabulary'', bad_sheet)]"
  let ?e1 = "example_env scheme_needs_uri accept_all accept_all bad_sheet"
  let ?e2 = "example_env accept_all concept_needs_label accept_all bad_sheet"
  let ?e3 = "example_env accept_all accept_all collection_needs_label bad_sheet"
  let ?a = "\<lparr>c_uri = Str ''http://ex/b'', c_pref_label = NoneV, c_alt_labels = None,
         c_definition = NoneV, c_children = None, c_other_ids = None,
         c_home_vocab_uri = NoneV, c_provenance = NoneV\<rparr>"
  let ?b = "\<lparr>k_uri = Str ''http://ex/col'', k_pref_label = NoneV, k_definition = NoneV,
         k_members = None, k_provenance = NoneV\<rparr>"
  let ?st2 = "\<lparr>concepts = [\<lparr>c_uri = Str ''http://ex/a'', c_pref_label = Str ''A'',
                 c_alt_labels = None, c_definition = NoneV, c_children = None,
                 c_other_ids = None, c_home_vocab_uri = NoneV, c_provenance = NoneV\<rparr>],
               collections = [] :: collection_args list,
               process_concept = True, process_collection = False\<rparr>"
  let ?st3 = "\<lparr>concepts = [\<lparr>c_uri = Str ''http://ex/a'', c_pref_label = Str ''A'',
                 c_alt_labels = None, c_definition = NoneV, c_children = None,
                 c_other_ids = None, c_home_vocab_uri = NoneV, c_provenance = NoneV\<rparr>,
                \<lparr>c_uri = Str ''http://ex/b'', c_pref_label = NoneV,
                 c_alt_labels = None, c_definition = NoneV, c_children = None,
                 c_other_ids = None, c_home_vocab_uri = NoneV, c_provenance = NoneV\<rparr>,
                \<lparr>c_uri = Str ''http://ex/c'', c_pref_label = NoneV,
                 c_alt_labels = None, c_definition = NoneV, c_children = None,
                 c_other_ids = None, c_home_vocab_uri = NoneV, c_provenance = NoneV\<rparr>],
               collections = [] :: collection_args list,
               process_concept = False, process_collection = True\<rparr>"
  have name: "list_ex (endswith (path_name ''voc.xlsx'')) EXCEL_FILE_ENDINGS"
    by code_simp
  have sheet: "?wb (case None of None \<Rightarrow> ''vocabulary'' | Some n \<Rightarrow> n) = Some bad_sheet"
    by simp
  have ext: "lower (snd (splitext ''voc.xlsx'')) \<in> set SUPPORTED_FORMATS"
    by code_simp
  have l1: "load_workbook (read_workbook ?e1) ''voc.xlsx'' = ([OpenFile ''voc.xlsx''], Inr ?wb)"
    and l2: "load_workbook (read_workbook ?e2) ''voc.xlsx'' = ([OpenFile ''voc.xlsx''], Inr ?wb)"
    and l3: "load_workbook (read_workbook ?e3) ''voc.xlsx'' = ([OpenFile ''voc.xlsx''], Inr ?wb)"
    using ext by (simp_all add: load_workbook_def example_env_def)
  have s1: "mk_scheme ?e1 (scheme_row bad_sheet) = Inl ''uri: none is not an allowed value''"
    by code_simp
  have s2: "\<not> isl (mk_scheme ?e2 (scheme_row bad_sheet))"
    and s3: "\<not> isl (mk_scheme ?e3 (scheme_row bad_sheet))"
    by (simp_all add: example_env_def accept_all_def)
  have r2: "1 \<le> (3::nat) \<and> 3 \<le> max_row bad_sheet
        \<and> extract_loop (mk_concept ?e2) (mk_collection ?e2) bad_sheet init_state [1..<3] = Inr ?st2
        \<and> cell bad_sheet CHR ''A'' 3 \<noteq> NoneV
        \<and> cell bad_sheet CHR ''A'' 3 \<noteq> Str ''Concept URI''
        \<and> cell bad_sheet CHR ''A'' 3 \<noteq> Str ''Collection URI''
        \<and> process_concept ?st2
        \<and> concept_row bad_sheet 3 = Inr ?a
        \<and> mk_concept ?e2 ?a = Inl ''pref_label: none is not an allowed value''"
    by code_simp
  have r3: "1 \<le> (6::nat) \<and> 6 \<le> max_row bad_sheet
        \<and> extract_loop (mk_concept ?e3) (mk_collection ?e3) bad_sheet init_state [1..<6] = Inr ?st3
        \<and> cell bad_sheet CHR ''A'' 6 \<noteq> NoneV
        \<and> cell bad_sheet CHR ''A'' 6 \<noteq> Str ''Concept URI''
        \<and> cell bad_sheet CHR ''A'' 6 \<noteq> Str ''Collection URI''
        \<and> \<not> process_concept ?st3 \<and> process_collection ?st3
        \<and> collection_row bad_sheet 6 = Inr ?b
        \<and> mk_collection ?e3 ?b = Inl ''pref_label: none is not an allowed value''"
    by code_simp
  have n3: "str_nat 3 = ''3''" and n6: "str_nat 6 = ''6''"
    by code_simp+
  have c1: "concept_needs_label ?a = Inl ''pref_label: none is not an allowed value''"
    and c2: "collection_needs_label ?b = Inl ''pref_label: none is not an allowed value''"
    by code_simp+
  from s1 validation_failure_aborts_conversion [OF name l1 sheet,
      where e = "''uri: none is not an allowed value''"
        and output_type = "''file''" and output_file_path = None]
  have g1: "excel_to_rdf ?e1 ''voc.xlsx'' None ''file'' None
     = ([OpenFile ''voc.xlsx''],
        Inl (ConversionError
          ''ConceptScheme processing error: uri: none is not an allowed value''))"
    by simp
  from r2 s2 validation_failure_aborts_conversion [OF name l2 sheet,
      where e = "''pref_label: none is not an allowed value''" and row = 3 and st = ?st2
        and a = ?a and output_type = "''file''" and output_file_path = None]
  have g2: "excel_to_rdf ?e2 ''voc.xlsx'' None ''file'' None
     = ([OpenFile ''voc.xlsx''],
        Inl (ConversionError
          (''Concept processing error, row '' @ str_nat 3
             @ '', error: '' @ ''pref_label: none is not an allowed value'')))"
    by blast
  from r3 s3 validation_failure_aborts_conversion [OF name l3 sheet,
      where e = "''pref_label: none is not an allowed value''" and row = 6 and st = ?st3
        and b = ?b and output_type = "''file''" and output_file_path = None]
  have g3: "excel_to_rdf ?e3 ''voc.xlsx'' None ''file'' None
     = ([OpenFile ''voc.xlsx''],
        Inl (ConversionError
          (''Collection processing error, row '' @ str_nat 6
             @ '', error: '' @ ''pref_label: none is not an allowed value'')))"
    by blast
  from s1 c1 c2 g1 g2 g3 show ?thesis
    unfolding n3 n6 by simp
qed

section \<open>The template version gate\<close>

lemma join_versions: "join '', '' KNOWN_TEMPLATE_VERSIONS = ''0.4.3''"
  by (simp add: KNOWN_TEMPLATE_VERSIONS_def)

text \<open>
  Claim C6, as amended. The gate fails with the error "The version of the Excel template
  cannot be determined." when the workbook has no sheet "Introduction", and with the error
  "Unsupported template version. Supported are 0.4.3, you supplied ..." when the value of
  the version cell J11 is not the known version 0.4.3. When the version is known it
  returns \<open>True\<close>.
\<close>

theorem template_version_gate:
  "(wb ''Introduction'' = None \<longrightarrow>
      is_supported_template wb
        = Inl (Voc4catError ''The version of the Excel template cannot be determined.''))
   \<and> (wb ''Introduction'' = Some sh \<and> cell sh CHR ''J'' 11 \<noteq> Str ''0.4.3'' \<longrightarrow>
      is_supported_template wb
        = Inl (Voc4catError
                 (''Unsupported template version. Supported are 0.4.3, you supplied ''
                  @ str_cell (cell sh CHR ''J'' 11) @ ''.'')))
   \<and> (wb ''Introduction'' = Some sh \<and> cell sh CHR ''J'' 11 = Str ''0.4.3'' \<longrightarrow>
      is_supported_template wb = Inr PyTrue)"
  by (auto simp: is_supported_template_def get_template_version_def join_versions
        KNOWN_TEMPLATE_VERSIONS_def)

theorem template_version_gate_witness:
  "unversioned_workbook ''Introduction'' = None
   \<and> is_supported_template unversioned_workbook
       = Inl (Voc4catError ''The version of the Excel template cannot be determined.'')
   \<and> versioned_workbook (Str ''0.4.2'') ''Introduction''
       = Some (sheet_of 11 [((CHR ''J'', 11), Str ''0.4.2'')])
   \<and> is_supported_template (versioned_workbook (Str ''0.4.2''))
       = Inl (Voc4catError
                ''Unsupported template version. Supported are 0.4.3, you supplied 0.4.2.'')
   \<and> versioned_workbook (Str ''0.4.3'') ''Introduction''
       = Some (sheet_of 11 [((CHR ''J'', 11), Str ''0.4.3'')])
   \<and> is_supported_template (versioned_workbook (Str ''0.4.3'')) = Inr PyTrue
   \<and> is_supported_template (versioned_workbook (Other ''1.0''))
       = Inl (Voc4catError
                ''Unsupported template version. Supported are 0.4.3, you supplied 1.0.'')"
proof -
  have a: "unversioned_workbook ''Introduction'' = None"
    by (simp add: unversioned_workbook_def)
  have b: "versioned_workbook (Str ''0.4.2'') ''Introduction''
             = Some (sheet_of 11 [((CHR ''J'', 11), Str ''0.4.2'')])
           \<and> cell (sheet_of 11 [((CHR ''J'', 11), Str ''0.4.2'')]) CHR ''J'' 11 \<noteq> Str ''0.4.3''"
    by (simp add: versioned_workbook_def sheet_of_def)
  have c: "versioned_workbook (Str ''0.4.3'') ''Introduction''
             = Some (sheet_of 11 [((CHR ''J'', 11), Str ''0.4.3'')])
           \<and> cell (sheet_of 11 [((CHR ''J'', 11), Str ''0.4.3'')]) CHR ''J'' 11 = Str ''0.4.3''"
    by (simp add: versioned_workbook_def sheet_of_def)
  have d: "str_cell (cell (sheet_of 11 [((CHR ''J'', 11), Str ''0.4.2'')]) CHR ''J'' 11) = ''0.4.2''"
    by (simp add: str_cell_def sheet_of_def)
  from a template_version_gate [where wb = unversioned_workbook]
  have g1: "is_supported_template unversioned_workbook
       = Inl (Voc4catError ''The version of the Excel template cannot be determined.'')"
    by blast
  from b template_version_gate [where wb = "versioned_workbook (Str ''0.4.2'')"
      and sh = "sheet_of 11 [((CHR ''J'', 11), Str ''0.4.2'')]"]
  have g2: "is_supported_template (versioned_workbook (Str ''0.4.2''))
       = Inl (Voc4catError
                (''Unsupported template version. Supported are 0.4.3, you supplied ''
                  @ str_cell (cell (sheet_of 11 [((CHR ''J'', 11), Str ''0.4.2'')]) CHR ''J'' 11)
                  @ ''.''))"
    by blast
  from c template_version_gate [where wb = "versioned_workbook (Str ''0.4.3'')"
      and sh = "sheet_of 11 [((CHR ''J'', 11), Str ''0.4.3'')]"]
  have g3: "is_supported_template (versioned_workbook (Str ''0.4.3'')) = Inr PyTrue"
    by blast
  have e: "versioned_workbook (Other ''1.0'') ''Introduction''
             = Some (sheet_of 11 [((CHR ''J'', 11), Other ''1.0'')])
           \<and> cell (sheet_of 11 [((CHR ''J'', 11), Other ''1.0'')]) CHR ''J'' 11 \<noteq> Str ''0.4.3''"
    by (simp add: versioned_workbook_def sheet_of_def)
  have f: "str_cell (cell (sheet_of 11 [((CHR ''J'', 11), Other ''1.0'')]) CHR ''J'' 11) = ''1.0''"
    by (simp add: str_cell_def sheet_of_def)
  from e template_version_gate [where wb = "versioned_workbook (Other ''1.0'')"
      and sh = "sheet_of 11 [((CHR ''J'', 11), Other ''1.0'')]"]
  have g4: "is_supported_template (versioned_workbook (Other ''1.0''))
       = Inl (Voc4catError
                (''Unsupported template version. Supported are 0.4.3, you supplied ''
                  @ str_cell (cell (sheet_of 11 [((CHR ''J'', 11), Other ''1.0'')]) CHR ''J'' 11)
                  @ ''.''))"
    by blast
  from a b c g1 g2 g3 g4 show ?thesis
    unfolding d f by simp
qed

text \<open>
  Claim C6, as stated, has the gate return the workbook on success. It returns \<open>True\<close>.
\<close>

theorem template_version_gate_counterexample:
  "is_supported_template (versioned_workbook (Str ''0.4.3'')) = Inr PyTrue
   \<and> is_supported_template (versioned_workbook (Str ''0.4.3''))
       \<noteq> Inr (PyWorkbook (versioned_workbook (Str ''0.4.3'')))"
  by (simp add: is_supported_template_def get_template_version_def versioned_workbook_def
        sheet_of_def KNOWN_TEMPLATE_VERSIONS_def)

section \<open>The orchestrators\<close>

text \<open>
  What \<open>rdf_to_excel\<close> does after its two checks: a ConversionError with the report of
  the validator when the data does not conform, \<open>None\<close> when it does, and no file
  written in either case.
\<close>

lemma rdf_to_excel_invalid:
  assumes "list_ex (endswith (path_name p)) RDF_FILE_ENDINGS" and "profile \<in> set PROFILES"
    and "\<not> fst (validate p ''validator.vocpub.ttl'')"
  shows "rdf_to_excel PROFILES validate p profile output_file_path
           = ([ValidateRdf p ''validator.vocpub.ttl''],
              Inl (ConversionError
                (''The file you supplied is not valid according to the '' @ profile
                 @ '' profile. The validation errors are:'' @ [CHR 0x0A, CHR 0x0A]
                 @ snd (validate p ''validator.vocpub.ttl''))))"
  using assms by (simp add: rdf_to_excel_def)

lemma rdf_to_excel_valid:
  assumes "list_ex (endswith (path_name p)) RDF_FILE_ENDINGS" and "profile \<in> set PROFILES"
    and "fst (validate p ''validator.vocpub.ttl'')"
  shows "rdf_to_excel PROFILES validate p profile output_file_path
           = ([ValidateRdf p ''validator.vocpub.ttl''], Inr None)"
  using assms by (simp add: rdf_to_excel_def)

lemma rdf_to_excel_writes_nothing:
  "WriteFile dest text \<notin> set (fst (rdf_to_excel PROFILES validate p profile output_file_path))"
  by (simp add: rdf_to_excel_def Let_def)

text \<open>
  Claim C7. \<open>rdf_to_excel\<close> validates the file against the SHACL shapes of the named
  profile. It does not: the shape file is \<open>validator.vocpub.ttl\<close> whatever the profile.
  For the registered profile "sdo", a file that conforms to the shapes of vocpub only is
  accepted, and a file that fails is reported as "not valid according to the sdo profile"
  on the strength of the vocpub shapes.
\<close>

theorem rdf_to_excel_ignores_profile:
  "rdf_to_excel [''vocpub'', ''sdo''] vocpub_only_validator ''voc.ttl'' ''sdo'' None
     = ([ValidateRdf ''voc.ttl'' ''validator.vocpub.ttl''], Inr None)
   \<and> rdf_to_excel [''vocpub'', ''sdo''] failing_validator ''voc.ttl'' ''sdo'' None
     = ([ValidateRdf ''voc.ttl'' ''validator.vocpub.ttl''],
        Inl (ConversionError
          (''The file you supplied is not valid according to the sdo profile. ''
           @ ''The validation errors are:'' @ [CHR 0x0A, CHR 0x0A] @ ''Conforms: False'')))"
  by code_simp

text \<open>
  The extension of a path is the second part of \<open>splitext\<close>. A path with the extension
  \<open>.xlsx\<close> has a name that ends with \<open>xlsx\<close> and is a supported format of the
  loader; a path whose name ends with \<open>xlsx\<close> and which the loader supports has the
  extension \<open>.xlsx\<close>.
\<close>

lemma splitext_append: "fst (splitext p) @ snd (splitext p) = p"
  by (simp add: splitext_def Let_def)

lemma endswith_iff: "endswith s suf \<longleftrightarrow> (\<exists>q. s = q @ suf)"
proof
  assume "endswith s suf"
  then have "s = take (length s - length suf) s @ suf"
    unfolding endswith_def by (metis append_take_drop_id)
  then show "\<exists>q. s = q @ suf" ..
next
  assume "\<exists>q. s = q @ suf"
  then show "endswith s suf" by (auto simp: endswith_def)
qed

lemma path_name_append:
  assumes "CHR ''/'' \<notin> set s"
  shows "path_name (q @ s) = path_name q @ s"
proof -
  have "takeWhile (\<lambda>c. c \<noteq> CHR ''/'') (rev s @ rev q)
          = rev s @ takeWhile (\<lambda>c. c \<noteq> CHR ''/'') (rev q)"
    using assms by (intro takeWhile_append2) auto
  then show ?thesis by (simp add: path_name_def)
qed

lemma path_name_is_suffix: "\<exists>q. p = q @ path_name p"
proof -
  have "rev p = takeWhile (\<lambda>c. c \<noteq> CHR ''/'') (rev p) @ dropWhile (\<lambda>c. c \<noteq> CHR ''/'') (rev p)"
    by simp
  then have "p = rev (dropWhile (\<lambda>c. c \<noteq> CHR ''/'') (rev p)) @ path_name p"
    unfolding path_name_def by (metis rev_append rev_rev_ident)
  then show ?thesis ..
qed

lemma lower_char_dot: "lower_char c = CHR ''.'' \<Longrightarrow> c = CHR ''.''"
proof (rule ccontr)
  assume l: "lower_char c = CHR ''.''" and n: "c \<noteq> CHR ''.''"
  let ?n = "of_char c :: nat"
  from l n have up: "(65 \<le> ?n \<and> ?n \<le> 90) \<or> (192 \<le> ?n \<and> ?n \<le> 222 \<and> ?n \<noteq> 215)"
    and eq: "char_of (?n + 32) = CHR ''.''"
    by (auto simp: lower_char_def Let_def split: if_splits)
  from eq have "(of_char (char_of (?n + 32) :: char) :: nat) = of_char CHR ''.''" by simp
  then have "(?n + 32) mod 256 = 46" by simp
  with up show False by auto
qed

lemma xlsx_extension_accepted:
  assumes "snd (splitext p) = ''.xlsx''"
  shows "endswith (path_name p) ''xlsx''"
    and "lower (snd (splitext p)) \<in> set SUPPORTED_FORMATS"
proof -
  from splitext_append [of p] assms have "p = fst (splitext p) @ ''.xlsx''" by simp
  then have "path_name p = path_name (fst (splitext p)) @ ''.xlsx''"
    using path_name_append [of "''.xlsx''" "fst (splitext p)"] by simp
  then have "path_name p = (path_name (fst (splitext p)) @ ''.'') @ ''xlsx''" by simp
  then show "endswith (path_name p) ''xlsx''" unfolding endswith_iff by blast
  from assms show "lower (snd (splitext p)) \<in> set SUPPORTED_FORMATS"
    by (simp add: lower_def lower_char_def SUPPORTED_FORMATS_def)
qed

lemma supported_xlsx_name:
  assumes "endswith (path_name p) ''xlsx''"
    and "lower (snd (splitext p)) \<in> set SUPPORTED_FORMATS"
  shows "snd (splitext p) = ''.xlsx''"
proof -
  let ?e = "snd (splitext p)"
  from assms(2) have len: "length ?e = 5"
    by (auto simp: SUPPORTED_FORMATS_def lower_def dest: arg_cong [where f = length])
  from assms(1) obtain q1 where "path_name p = q1 @ ''xlsx''"
    unfolding endswith_iff by blast
  with path_name_is_suffix [of p] obtain q where q: "p = q @ ''xlsx''"
    by (metis append.assoc)
  from splitext_append [of p] have e: "p = fst (splitext p) @ ?e" by simp
  from q have d4: "drop (length p - 4) p = ''xlsx''" by simp
  from e len have d5: "drop (length p - 5) p = ?e"
    by (metis append_eq_conv_conj length_append add_diff_cancel_right')
  from len e have "5 \<le> length p" by (metis length_append le_add2)
  then have "length p - 4 = Suc (length p - 5)" by arith
  then have "drop (length p - 4) p = drop 1 (drop (length p - 5) p)"
    by simp
  with d4 d5 have tl: "drop 1 ?e = ''xlsx''" by simp
  with len obtain c where c: "?e = c # ''xlsx''"
    by (cases ?e) auto
  with assms(2) have "lower_char c = CHR ''.''"
    by (auto simp: SUPPORTED_FORMATS_def lower_def)
  then have "c = CHR ''.''" by (rule lower_char_dot)
  with c show ?thesis by simp
qed


text \<open>The three ways of \<open>excel_to_rdf\<close> through the check of the name and the loader.\<close>

lemma excel_to_rdf_bad_name:
  assumes "\<not> endswith (path_name p) ''xlsx''"
  shows "excel_to_rdf env p sheet_name output_type output_file_path
           = ([], Inl (ValueError ''Files for conversion to RDF must be Excel files ending .xlsx''))"
  using assms by (simp add: excel_to_rdf_def EXCEL_FILE_ENDINGS_def)

lemma excel_to_rdf_refused_by_loader:
  assumes "endswith (path_name p) ''xlsx''" and "snd (splitext p) \<noteq> ''.xlsx''"
  shows "excel_to_rdf env p sheet_name output_type output_file_path
           = ([], Inl InvalidFileException)"
proof -
  from assms have "lower (snd (splitext p)) \<notin> set SUPPORTED_FORMATS"
    using supported_xlsx_name by blast
  with assms(1) show ?thesis
    by (simp add: excel_to_rdf_def EXCEL_FILE_ENDINGS_def load_workbook_def)
qed

lemma excel_to_rdf_opens_file:
  assumes "snd (splitext p) = ''.xlsx''"
  shows "\<exists>evs r. excel_to_rdf env p sheet_name output_type output_file_path
                  = (OpenFile p # evs, r)"
proof -
  from assms have "endswith (path_name p) ''xlsx''"
    and "lower (snd (splitext p)) \<in> set SUPPORTED_FORMATS"
    by (rule xlsx_extension_accepted)+
  then show ?thesis
    by (auto simp: excel_to_rdf_def EXCEL_FILE_ENDINGS_def load_workbook_def Let_def
          split: sum.splits option.splits prod.splits)
qed

lemma load_workbook_xlsx:
  assumes "snd (splitext p) = ''.xlsx''"
  shows "load_workbook read p = ([OpenFile p], read p)"
  using xlsx_extension_accepted(2) [OF assms] by (simp add: load_workbook_def)

text \<open>
  Claim C8. \<open>excel_to_rdf\<close> fails before any file is opened, with an error that is no
  ConversionError, exactly when the extension of the path (as \<open>os.path.splitext\<close>
  gives it) is not \<open>.xlsx\<close>: with its own ValueError when the name does not end with
  \<open>xlsx\<close>, and with the InvalidFileException of the loader, raised on the name alone,
  when the name ends with \<open>xlsx\<close> without having that extension. With the extension
  \<open>.xlsx\<close> the first thing done is the opening of the file. A ConversionError from
  the scheme header or from the extraction of the rows is the error of the call,
  unchanged.
\<close>

theorem excel_to_rdf_extension_check:
  "((\<exists>e. excel_to_rdf env p sheet_name output_type output_file_path = ([], Inl e)
          \<and> (\<forall>m. e \<noteq> ConversionError m))
      \<longleftrightarrow> snd (splitext p) \<noteq> ''.xlsx'')
   \<and> (\<not> endswith (path_name p) ''xlsx'' \<longrightarrow>
        excel_to_rdf env p sheet_name output_type output_file_path
          = ([], Inl (ValueError ''Files for conversion to RDF must be Excel files ending .xlsx'')))
   \<and> (endswith (path_name p) ''xlsx'' \<and> snd (splitext p) \<noteq> ''.xlsx'' \<longrightarrow>
        excel_to_rdf env p sheet_name output_type output_file_path
          = ([], Inl InvalidFileException))
   \<and> (snd (splitext p) = ''.xlsx'' \<longrightarrow>
        (\<exists>evs r. excel_to_rdf env p sheet_name output_type output_file_path
                    = (OpenFile p # evs, r)))
   \<and> (snd (splitext p) = ''.xlsx'' \<and> read_workbook env p = Inr wb
       \<and> wb (case sheet_name of None \<Rightarrow> ''vocabulary'' | Some n \<Rightarrow> n) = Some sheet
       \<and> mk_scheme env (scheme_row sheet) = Inl v \<longrightarrow>
        snd (excel_to_rdf env p sheet_name output_type output_file_path)
          = Inl (ConversionError (''ConceptScheme processing error: '' @ v)))
   \<and> (snd (splitext p) = ''.xlsx'' \<and> read_workbook env p = Inr wb
       \<and> wb (case sheet_name of None \<Rightarrow> ''vocabulary'' | Some n \<Rightarrow> n) = Some sheet
       \<and> \<not> isl (mk_scheme env (scheme_row sheet))
       \<and> extract_concepts_and_collections (mk_concept env) (mk_collection env) sheet
           = Inl (ConversionError m) \<longrightarrow>
        snd (excel_to_rdf env p sheet_name output_type output_file_path)
          = Inl (ConversionError m))"
proof (intro conjI impI)
  show "(\<exists>e. excel_to_rdf env p sheet_name output_type output_file_path = ([], Inl e)
          \<and> (\<forall>m. e \<noteq> ConversionError m))
      \<longleftrightarrow> snd (splitext p) \<noteq> ''.xlsx''"
  proof
    assume l: "\<exists>e. excel_to_rdf env p sheet_name output_type output_file_path = ([], Inl e)
          \<and> (\<forall>m. e \<noteq> ConversionError m)"
    show "snd (splitext p) \<noteq> ''.xlsx''"
    proof
      assume "snd (splitext p) = ''.xlsx''"
      from excel_to_rdf_opens_file [OF this, of env sheet_name output_type output_file_path] l
      show False by auto
    qed
  next
    assume r: "snd (splitext p) \<noteq> ''.xlsx''"
    show "\<exists>e. excel_to_rdf env p sheet_name output_type output_file_path = ([], Inl e)
          \<and> (\<forall>m. e \<noteq> ConversionError m)"
    proof (cases "endswith (path_name p) ''xlsx''")
      case True
      show ?thesis by (simp add: excel_to_rdf_refused_by_loader [OF True r])
    next
      case False
      show ?thesis by (simp add: excel_to_rdf_bad_name [OF False])
    qed
  qed
next
  assume "\<not> endswith (path_name p) ''xlsx''"
  then show "excel_to_rdf env p sheet_name output_type output_file_path
          = ([], Inl (ValueError ''Files for conversion to RDF must be Excel files ending .xlsx''))"
    by (rule excel_to_rdf_bad_name)
next
  assume "endswith (path_name p) ''xlsx'' \<and> snd (splitext p) \<noteq> ''.xlsx''"
  then show "excel_to_rdf env p sheet_name output_type output_file_path
          = ([], Inl InvalidFileException)"
    using excel_to_rdf_refused_by_loader by blast
next
  assume "snd (splitext p) = ''.xlsx''"
  then show "\<exists>evs r. excel_to_rdf env p sheet_name output_type output_file_path
                    = (OpenFile p # evs, r)"
    by (rule excel_to_rdf_opens_file)
next
  assume h: "snd (splitext p) = ''.xlsx'' \<and> read_workbook env p = Inr wb
       \<and> wb (case sheet_name of None \<Rightarrow> ''vocabulary'' | Some n \<Rightarrow> n) = Some sheet
       \<and> mk_scheme env (scheme_row sheet) = Inl v"
  then have name: "list_ex (endswith (path_name p)) EXCEL_FILE_ENDINGS"
    using xlsx_extension_accepted(1) by (simp add: EXCEL_FILE_ENDINGS_def)
  from h have load: "load_workbook (read_workbook env) p = ([OpenFile p], Inr wb)"
    by (simp add: load_workbook_xlsx)
  from h have sheet: "wb (case sheet_name of None \<Rightarrow> ''vocabulary'' | Some n \<Rightarrow> n) = Some sheet"
    by simp
  from h show "snd (excel_to_rdf env p sheet_name output_type output_file_path)
          = Inl (ConversionError (''ConceptScheme processing error: '' @ v))"
    by (simp add: excel_to_rdf_loaded [OF name load sheet] convert_sheet_scheme_error)
next
  assume h: "snd (splitext p) = ''.xlsx'' \<and> read_workbook env p = Inr wb
       \<and> wb (case sheet_name of None \<Rightarrow> ''vocabulary'' | Some n \<Rightarrow> n) = Some sheet
       \<and> \<not> isl (mk_scheme env (scheme_row sheet))
       \<and> extract_concepts_and_collections (mk_concept env) (mk_collection env) sheet
           = Inl (ConversionError m)"
  then have name: "list_ex (endswith (path_name p)) EXCEL_FILE_ENDINGS"
    using xlsx_extension_accepted(1) by (simp add: EXCEL_FILE_ENDINGS_def)
  from h have load: "load_workbook (read_workbook env) p = ([OpenFile p], Inr wb)"
    by (simp add: load_workbook_xlsx)
  from h have sheet: "wb (case sheet_name of None \<Rightarrow> ''vocabulary'' | Some n \<Rightarrow> n) = Some sheet"
    by simp
  from h show "snd (excel_to_rdf env p sheet_name output_type output_file_path)
          = Inl (ConversionError m)"
    by (simp add: excel_to_rdf_loaded [OF name load sheet] convert_sheet_row_error)
qed


theorem excel_to_rdf_extension_check_witness:
  "snd (splitext ''voc.notxlsx'') = ''.notxlsx''
   \<and> excel_to_rdf (example_env accept_all accept_all accept_all example_sheet)
        ''voc.notxlsx'' None ''file'' None
     = ([], Inl InvalidFileException)
   \<and> (\<exists>e. excel_to_rdf (example_env accept_all accept_all accept_all example_sheet)
              ''voc.notxlsx'' None ''file'' None = ([], Inl e)
           \<and> (\<forall>m. e \<noteq> ConversionError m))
   \<and> excel_to_rdf (example_env accept_all accept_all accept_all example_sheet)
        ''voc.ttl'' None ''file'' None
     = ([], Inl (ValueError ''Files for conversion to RDF must be Excel files ending .xlsx''))
   \<and> snd (splitext ''voc.xlsx'') = ''.xlsx''
   \<and> (\<exists>evs r. excel_to_rdf (example_env accept_all accept_all accept_all example_sheet)
                  ''voc.xlsx'' None ''file'' None
                = (OpenFile ''voc.xlsx'' # evs, r))
   \<and> snd (excel_to_rdf (example_env scheme_needs_uri accept_all accept_all bad_sheet)
            ''voc.xlsx'' None ''file'' None)
     = Inl (ConversionError
              ''ConceptScheme processing error: uri: none is not an allowed value'')
   \<and> snd (excel_to_rdf (example_env accept_all concept_needs_label accept_all bad_sheet)
            ''voc.xlsx'' None ''file'' None)
     = Inl (ConversionError
              ''Concept processing error, row 3, error: pref_label: none is not an allowed value'')"
proof -
  let ?e0 = "example_env accept_all accept_all accept_all example_sheet"
  let ?e1 = "example_env scheme_needs_uri accept_all accept_all bad_sheet"
  let ?e2 = "example_env accept_all concept_needs_label accept_all bad_sheet"
  let ?wb = "map_of [(''vocabulary'', bad_sheet)]"
  have n1: "snd (splitext ''voc.notxlsx'') = ''.notxlsx''"
    and n2: "endswith (path_name ''voc.notxlsx'') ''xlsx''"
    and n3: "\<not> endswith (path_name ''voc.ttl'') ''xlsx''"
    and n4: "snd (splitext ''voc.xlsx'') = ''.xlsx''"
    by code_simp+
  from n1 have n5: "snd (splitext ''voc.notxlsx'') \<noteq> ''.xlsx''" by simp
  have r1: "read_workbook ?e1 ''voc.xlsx'' = Inr ?wb"
    and r2: "read_workbook ?e2 ''voc.xlsx'' = Inr ?wb"
    by (simp_all add: example_env_def)
  have sheet: "?wb (case None of None \<Rightarrow> ''vocabulary'' | Some n \<Rightarrow> n) = Some bad_sheet"
    by simp
  have s1: "mk_scheme ?e1 (scheme_row bad_sheet) = Inl ''uri: none is not an allowed value''"
    by code_simp
  have s2: "\<not> isl (mk_scheme ?e2 (scheme_row bad_sheet))"
    by (simp add: example_env_def accept_all_def)
  have x2: "extract_concepts_and_collections (mk_concept ?e2) (mk_collection ?e2) bad_sheet
              = Inl (ConversionError
                  ''Concept processing error, row 3, error: pref_label: none is not an allowed value'')"
    by code_simp
  note t0 = excel_to_rdf_extension_check [where env = ?e0 and sheet_name = None
      and output_type = "''file''" and output_file_path = None]
  from n2 n5 t0 [where p = "''voc.notxlsx''"]
  have g1: "excel_to_rdf ?e0 ''voc.notxlsx'' None ''file'' None = ([], Inl InvalidFileException)"
    and g2: "\<exists>e. excel_to_rdf ?e0 ''voc.notxlsx'' None ''file'' None = ([], Inl e)
              \<and> (\<forall>m. e \<noteq> ConversionError m)"
    by blast+
  from n3 t0 [where p = "''voc.ttl''"]
  have g3: "excel_to_rdf ?e0 ''voc.ttl'' None ''file'' None
     = ([], Inl (ValueError ''Files for conversion to RDF must be Excel files ending .xlsx''))"
    by blast
  from n4 t0 [where p = "''voc.xlsx''"]
  have g4: "\<exists>evs r. excel_to_rdf ?e0 ''voc.xlsx'' None ''file'' None
                = (OpenFile ''voc.xlsx'' # evs, r)"
    by blast
  from n4 r1 sheet s1
    excel_to_rdf_extension_check [where env = ?e1 and p = "''voc.xlsx''" and sheet_name = None
      and output_type = "''file''" and output_file_path = None and wb = ?wb
      and sheet = bad_sheet and v = "''uri: none is not an allowed value''"]
  have g5: "snd (excel_to_rdf ?e1 ''voc.xlsx'' None ''file'' None)
     = Inl (ConversionError
              (''ConceptScheme processing error: '' @ ''uri: none is not an allowed value''))"
    by blast
  from n4 r2 sheet s2 x2
    excel_to_rdf_extension_check [where env = ?e2 and p = "''voc.xlsx''" and sheet_name = None
      and output_type = "''file''" and output_file_path = None and wb = ?wb
      and sheet = bad_sheet
      and m = "''Concept processing error, row 3, error: pref_label: none is not an allowed value''"]
  have g6: "snd (excel_to_rdf ?e2 ''voc.xlsx'' None ''file'' None)
     = Inl (ConversionError
              ''Concept processing error, row 3, error: pref_label: none is not an allowed value'')"
    by blast
  from n1 n4 g1 g2 g3 g4 g5 g6 show ?thesis by simp
qed

section \<open>The scan for files in several formats\<close>

text \<open>
  The name without extension: for a path whose last component does not begin with a dot
  (the pattern \<open>*.*\<close> of the scan matches no other) and ends with a dot and an ending,
  \<open>splitext\<close> cuts the path at that dot.
\<close>

lemma rfind_last:
  assumes "c \<notin> set post"
  shows "rfind c (pre @ c # post) = int (length pre)"
proof -
  have "takeWhile (\<lambda>x. x \<noteq> c) (rev post @ c # rev pre) = rev post"
    using assms by (auto simp: takeWhile_tail)
  then show ?thesis by (simp add: rfind_def)
qed

lemma rfind_none: "c \<notin> set s \<Longrightarrow> rfind c s = - 1"
  by (simp add: rfind_def)

lemma splitext_at_last_dot:
  assumes "CHR ''.'' \<notin> set ext" and "CHR ''/'' \<notin> set ext"
    and "CHR ''/'' \<notin> set name" and "name \<noteq> []" and "hd name \<noteq> CHR ''.''"
    and "dir = [] \<or> last dir = CHR ''/''"
  shows "splitext (dir @ name @ CHR ''.'' # ext) = (dir @ name, CHR ''.'' # ext)"
proof -
  let ?p = "dir @ name @ CHR ''.'' # ext"
  have dot: "rfind CHR ''.'' ?p = int (length dir + length name)"
    using rfind_last [OF assms(1), of "dir @ name"] by simp
  have sep: "rfind CHR ''/'' ?p = int (length dir) - 1"
  proof (cases "dir = []")
    case True
    with assms(2,3) show ?thesis by (simp add: rfind_none)
  next
    case False
    with assms(6) obtain d where d: "dir = d @ [CHR ''/'']"
      by (metis append_butlast_last_id)
    from assms(2,3) have "CHR ''/'' \<notin> set (name @ CHR ''.'' # ext)" by simp
    from rfind_last [OF this, of d] d show ?thesis by simp
  qed
  from assms(4,5) have ex: "list_ex (\<lambda>c. c \<noteq> CHR ''.'') name"
    by (cases name) simp_all
  show ?thesis
    by (simp add: splitext_def dot sep ex)
qed

text \<open>
  The comprehension keeps, in order, the entries of the list that have occurred before:
  one entry for every occurrence of a name after its first.
\<close>

lemma seen_before_snoc:
  "seen_before S (xs @ [x]) = seen_before S xs @ (if x \<in> S \<union> set xs then [x] else [])"
  by (induction xs arbitrary: S) auto

lemma seen_before_index:
  "seen_before S xs
     = map (\<lambda>i. xs ! i) (filter (\<lambda>i. xs ! i \<in> S \<union> set (take i xs)) [0..<length xs])"
proof (induction xs rule: rev_induct)
  case Nil
  show ?case by simp
next
  case (snoc x xs)
  let ?P = "\<lambda>i. (xs @ [x]) ! i \<in> S \<union> set (take i (xs @ [x]))"
  have f: "filter ?P [0..<length xs]
             = filter (\<lambda>i. xs ! i \<in> S \<union> set (take i xs)) [0..<length xs]"
    by (rule filter_cong) (auto simp: nth_append)
  have m: "map (\<lambda>i. (xs @ [x]) ! i) (filter (\<lambda>i. xs ! i \<in> S \<union> set (take i xs)) [0..<length xs])
             = map (\<lambda>i. xs ! i) (filter (\<lambda>i. xs ! i \<in> S \<union> set (take i xs)) [0..<length xs])"
    by (rule map_cong) (auto simp: nth_append)
  have a: "[0..<length (xs @ [x])] = [0..<length xs] @ [length xs]"
    by simp
  have b: "map (\<lambda>i. (xs @ [x]) ! i) (filter ?P [length xs])
             = (if x \<in> S \<union> set xs then [x] else [])"
    by simp
  have "map (\<lambda>i. (xs @ [x]) ! i) (filter ?P [0..<length (xs @ [x])])
          = map (\<lambda>i. xs ! i) (filter (\<lambda>i. xs ! i \<in> S \<union> set (take i xs)) [0..<length xs])
            @ (if x \<in> S \<union> set xs then [x] else [])"
    unfolding a filter_append map_append f m b ..
  then show ?case
    by (simp only: seen_before_snoc snoc.IH)
qed

lemma seen_before_count:
  "count_list (seen_before S xs) x
     = (if x \<in> S then count_list xs x else count_list xs x - 1)"
  by (induction xs arbitrary: S) auto

lemma length_card_distinct: "length xs = card (set xs) \<longleftrightarrow> distinct xs"
  by (metis card_distinct distinct_card)

text \<open>
  Claim C10. With the names without extension of the paths that end with a known file
  ending, in the order of the scan: the function returns \<open>False\<close> when the names are
  pairwise distinct, and otherwise the list of the names that occur more than once, one
  entry for each occurrence after the first (the entries at the positions whose name
  occurs at an earlier position), in the order of the scan.
\<close>

theorem has_file_in_multiple_formats_result:
  "has_file_in_multiple_formats globbed =
     (let names = map (\<lambda>f. fst (splitext f))
                    (filter (\<lambda>f. list_ex (endswith f) utils_KNOWN_FILE_ENDINGS) globbed)
      in if distinct names then PyFalse
         else PyList (map (\<lambda>i. names ! i)
                        (filter (\<lambda>i. names ! i \<in> set (take i names)) [0..<length names])))"
  by (simp add: has_file_in_multiple_formats_def Let_def length_card_distinct seen_before_index)

theorem has_file_in_multiple_formats_result_witness:
  "has_file_in_multiple_formats mixed_dir = PyList [''voc/a'', ''voc/a'']
   \<and> has_file_in_multiple_formats plain_dir = PyFalse"
proof -
  have a: "map (\<lambda>f. fst (splitext f))
             (filter (\<lambda>f. list_ex (endswith f) utils_KNOWN_FILE_ENDINGS) mixed_dir)
           = [''voc/a'', ''voc/b'', ''voc/a'', ''voc/a'']"
    by code_simp
  have b: "map (\<lambda>f. fst (splitext f))
             (filter (\<lambda>f. list_ex (endswith f) utils_KNOWN_FILE_ENDINGS) plain_dir)
           = [''voc/a'', ''voc/b'']"
    by code_simp
  have c: "[0..<4] = [0, 1, 2, 3]" by code_simp
  from has_file_in_multiple_formats_result [of mixed_dir]
  have g1: "has_file_in_multiple_formats mixed_dir = PyList [''voc/a'', ''voc/a'']"
    unfolding a Let_def by (simp add: c)
  from has_file_in_multiple_formats_result [of plain_dir]
  have g2: "has_file_in_multiple_formats plain_dir = PyFalse"
    unfolding b Let_def by simp
  from g1 g2 show ?thesis by simp
qed



end
